theory Spec2Isabelle
  imports Main
begin

section \<open>Abstract syntax (parser.py)\<close>

text \<open>
  The parser builds a tree of dataclass nodes.  The operators it can put into a
  \<open>BinaryOp\<close> or \<open>UnaryOp\<close> node form a closed set, so they are enumerations here;
  \<open>binop_str\<close> and \<open>unop_str\<close> give the Python strings stored in the nodes.  Literal
  values are Python ints, floats, strs or bools; floats are values of the type
  parameter \<open>'f\<close>.  Source positions (line, column), which the nodes carry for error
  messages only, are left out.  An expression used as a statement is wrapped in
  \<open>ExprStatement\<close>.
\<close>

datatype binop =
  OpAdd | OpSub | OpMul | OpDiv | OpMod | OpPow
  | OpLt | OpGt | OpLe | OpGe | OpEq | OpNe | OpAnd | OpOr

datatype unop = OpNeg | OpNot

fun binop_str :: "binop \<Rightarrow> string" where
  "binop_str OpAdd = ''+''"
| "binop_str OpSub = ''-''"
| "binop_str OpMul = ''*''"
| "binop_str OpDiv = ''/''"
| "binop_str OpMod = ''%''"
| "binop_str OpPow = ''**''"
| "binop_str OpLt = ''<''"
| "binop_str OpGt = ''>''"
| "binop_str OpLe = ''<=''"
| "binop_str OpGe = ''>=''"
| "binop_str OpEq = ''==''"
| "binop_str OpNe = ''!=''"
| "binop_str OpAnd = ''and''"
| "binop_str OpOr = ''or''"

fun unop_str :: "unop \<Rightarrow> string" where
  "unop_str OpNeg = ''-''"
| "unop_str OpNot = ''not''"

datatype 'f literal = IntLit int | FloatLit 'f | StrLit string | BoolLit bool

datatype 'f expr =
  Literal "'f literal" string
  | Identifier string
  | BinaryOp "'f expr" binop "'f expr"
  | UnaryOp unop "'f expr"
  | FunctionCall string "'f expr list"
  | ArrayLiteral "'f expr list"
  | ArrayAccess "'f expr" "'f expr"
  | BuiltInCall string "'f expr list"

datatype 'f stmt =
  VarDeclaration string string "'f expr option"
  | Assignment string "'f expr"
  | ArrayAssignment string "'f expr" "'f expr"
  | IfStatement "'f expr" "'f stmt list" "'f stmt list option"
  | WhileStatement "'f expr" "'f stmt list"
  | ForStatement "'f stmt" "'f expr" "'f stmt" "'f stmt list"
  | FunctionDef string string "(string \<times> string) list" "'f stmt list"
  | ReturnStatement "'f expr option"
  | PrintStatement "'f expr list"
  | Block "'f stmt list"
  | ExprStatement "'f expr"

datatype 'f program = Program "'f stmt list"

text \<open>Python truthiness of an optional list: \<open>None\<close> and \<open>[]\<close> are both falsy.\<close>

fun truthy_block :: "'a list option \<Rightarrow> bool" where
  "truthy_block None = False"
| "truthy_block (Some xs) = (xs \<noteq> [])"

fun block_items :: "'a list option \<Rightarrow> 'a list" where
  "block_items None = []"
| "block_items (Some xs) = xs"


section \<open>Symbol table (semantic\_analyzer.py)\<close>

text \<open>
  A symbol is the dict \<open>{'type': 'variable', 'data_type': t, 'initialized': b}\<close> or
  \<open>{'type': 'function', 'data_type': t, 'parameters': ps}\<close>.  A \<open>SymbolTable\<close> object
  holds its own dict of symbols and a reference to its parent; the analyzer only ever
  writes to the innermost table, so the chain is a value here.
\<close>

datatype symbol =
  VariableSymbol string bool
  | FunctionSymbol string "(string \<times> string) list"

fun symbol_kind :: "symbol \<Rightarrow> string" where
  "symbol_kind (VariableSymbol t i) = ''variable''"
| "symbol_kind (FunctionSymbol t ps) = ''function''"

fun data_type :: "symbol \<Rightarrow> string" where
  "data_type (VariableSymbol t i) = t"
| "data_type (FunctionSymbol t ps) = t"

datatype SymbolTable =
  SymbolTable (symbols: "string \<rightharpoonup> symbol") (parent: "SymbolTable option") (scope_level: nat)

text \<open>
  The messages of \<open>SemanticError\<close>, one constructor per message format, carrying the
  values the message is formatted from.
\<close>

datatype semantic_error =
  Redeclaration string
  | VariableAlreadyDeclared string
  | DeclTypeMismatch string string string
  | UndefinedVariable string
  | NotAVariable string
  | AssignTypeMismatch string string string
  | NumericOperands binop string string
  | CannotCompare string string
  | LogicalOperands binop string string
  | UnaryMinusOperand string
  | NotOperand string
  | IfCondition string
  | WhileCondition string
  | ForCondition string
  | FunctionAlreadyDeclared string
  | MissingReturn string string
  | UndefinedFunction string
  | NotAFunction string
  | ArgumentCount string nat nat
  | ArgumentType nat string string string
  | ReturnOutsideFunction
  | ReturnTypeMismatch string string
  | MustReturnValue string
  | ArrayElementTypes string string
  | IndexNonArray string
  | IndexNotInt string
  | UndefinedArray string
  | NotAnArray string
  | ArrayElemMismatch string string
  | BuiltinArity string nat
  | BuiltinArgTypes string "string list"
  | UnknownBuiltin string

definition new_table :: "SymbolTable option \<Rightarrow> SymbolTable" where
  "new_table p =
     SymbolTable Map.empty p (case p of None \<Rightarrow> 0 | Some q \<Rightarrow> scope_level q + 1)"

definition define_sym :: "SymbolTable \<Rightarrow> string \<Rightarrow> symbol \<Rightarrow> semantic_error + SymbolTable" where
  "define_sym tab name info =
     (if symbols tab name \<noteq> None then Inl (Redeclaration name)
      else Inr (SymbolTable ((symbols tab)(name \<mapsto> info)) (parent tab) (scope_level tab)))"

fun lookup :: "SymbolTable \<Rightarrow> string \<Rightarrow> symbol option" where
  "lookup (SymbolTable syms par lvl) name =
     (case syms name of
        Some s \<Rightarrow> Some s
      | None \<Rightarrow> (case par of Some p \<Rightarrow> lookup p name | None \<Rightarrow> None))"

definition exists :: "SymbolTable \<Rightarrow> string \<Rightarrow> bool" where
  "exists tab name = (lookup tab name \<noteq> None)"


section \<open>Semantic analyzer (semantic\_analyzer.py)\<close>

text \<open>Python string methods used on type names: \<open>s.endswith(suf)\<close>, \<open>s[:-2]\<close>,
  \<open>s.replace('[]', '')\<close> and \<open>s.lower()\<close> (on ASCII letters).\<close>

definition endswith :: "string \<Rightarrow> string \<Rightarrow> bool" where
  "endswith s suf = (length suf \<le> length s \<and> drop (length s - length suf) s = suf)"

definition startswith :: "string \<Rightarrow> string \<Rightarrow> bool" where
  "startswith s pre = (take (length pre) s = pre)"

definition drop_last2 :: "string \<Rightarrow> string" where
  "drop_last2 s = take (length s - 2) s"

fun remove_brackets :: "string \<Rightarrow> string" where
  "remove_brackets [] = []"
| "remove_brackets [c] = [c]"
| "remove_brackets (c # d # cs) =
     (if c = CHR ''['' \<and> d = CHR '']'' then remove_brackets cs
      else c # remove_brackets (d # cs))"

definition lower_char :: "char \<Rightarrow> char" where
  "lower_char c =
     (let n = (of_char c :: nat) in if 65 \<le> n \<and> n \<le> 90 then char_of (n + 32) else c)"

definition lower :: "string \<Rightarrow> string" where
  "lower s = map lower_char s"

definition is_numeric :: "string \<Rightarrow> bool" where
  "is_numeric type_name = (type_name = ''int'' \<or> type_name = ''float'')"

definition is_compatible_type :: "string \<Rightarrow> string \<Rightarrow> bool" where
  "is_compatible_type expected actual =
     (expected = actual \<or> (expected = ''float'' \<and> actual = ''int''))"

text \<open>
  Expressions never change the analyzer's state, so their analysis is a function of
  the current scope.  \<open>analyze_exprs\<close> analyzes a list from left to right and stops at
  the first error; \<open>analyze_args\<close> is the loop of \<open>analyze_FunctionCall\<close> over
  \<open>zip(arguments, parameters)\<close>, \<open>analyze_elems\<close> the loop of \<open>analyze_ArrayLiteral\<close>
  over \<open>elements[1:]\<close>.
\<close>

fun analyze_expr :: "SymbolTable \<Rightarrow> 'f expr \<Rightarrow> semantic_error + string"
  and analyze_exprs :: "SymbolTable \<Rightarrow> 'f expr list \<Rightarrow> semantic_error + string list"
  and analyze_args ::
    "SymbolTable \<Rightarrow> string \<Rightarrow> nat \<Rightarrow> 'f expr list \<Rightarrow> (string \<times> string) list
      \<Rightarrow> semantic_error + unit"
  and analyze_elems :: "SymbolTable \<Rightarrow> string \<Rightarrow> 'f expr list \<Rightarrow> semantic_error + unit"
where
  "analyze_expr sc (Literal v t) = Inr t"
| "analyze_expr sc (Identifier name) =
     (case lookup sc name of
        None \<Rightarrow> Inl (UndefinedVariable name)
      | Some s \<Rightarrow>
          if symbol_kind s \<noteq> ''variable'' then Inl (NotAVariable name)
          else Inr (data_type s))"
| "analyze_expr sc (BinaryOp l oper r) =
     (case analyze_expr sc l of
        Inl e \<Rightarrow> Inl e
      | Inr left_type \<Rightarrow>
          (case analyze_expr sc r of
             Inl e \<Rightarrow> Inl e
           | Inr right_type \<Rightarrow>
               if oper \<in> {OpAdd, OpSub, OpMul, OpDiv, OpMod, OpPow} then
                 (if \<not> is_numeric left_type \<or> \<not> is_numeric right_type
                  then Inl (NumericOperands oper left_type right_type)
                  else if left_type = ''float'' \<or> right_type = ''float'' then Inr ''float''
                  else Inr ''int'')
               else if oper \<in> {OpLt, OpGt, OpLe, OpGe} then
                 (if \<not> is_numeric left_type \<or> \<not> is_numeric right_type
                  then Inl (NumericOperands oper left_type right_type)
                  else Inr ''bool'')
               else if oper \<in> {OpEq, OpNe} then
                 (if \<not> is_compatible_type left_type right_type
                  then Inl (CannotCompare left_type right_type)
                  else Inr ''bool'')
               else
                 (if left_type \<noteq> ''bool'' \<or> right_type \<noteq> ''bool''
                  then Inl (LogicalOperands oper left_type right_type)
                  else Inr ''bool'')))"
| "analyze_expr sc (UnaryOp oper e) =
     (case analyze_expr sc e of
        Inl err \<Rightarrow> Inl err
      | Inr operand_type \<Rightarrow>
          (case oper of
             OpNeg \<Rightarrow>
               if \<not> is_numeric operand_type then Inl (UnaryMinusOperand operand_type)
               else Inr operand_type
           | OpNot \<Rightarrow>
               if operand_type \<noteq> ''bool'' then Inl (NotOperand operand_type)
               else Inr ''bool''))"
| "analyze_expr sc (FunctionCall name args) =
     (case lookup sc name of
        None \<Rightarrow> Inl (UndefinedFunction name)
      | Some (VariableSymbol t i) \<Rightarrow> Inl (NotAFunction name)
      | Some (FunctionSymbol t expected_params) \<Rightarrow>
          if length args \<noteq> length expected_params
          then Inl (ArgumentCount name (length expected_params) (length args))
          else (case analyze_args sc name 1 args expected_params of
                  Inl e \<Rightarrow> Inl e
                | Inr u \<Rightarrow> Inr t))"
| "analyze_expr sc (ArrayLiteral elements) =
     (case elements of
        [] \<Rightarrow> Inr ''int[]''
      | first # rest \<Rightarrow>
          (case analyze_expr sc first of
             Inl e \<Rightarrow> Inl e
           | Inr first_type \<Rightarrow>
               (case analyze_elems sc first_type rest of
                  Inl e \<Rightarrow> Inl e
                | Inr u \<Rightarrow> Inr (remove_brackets first_type @ ''[]''))))"
| "analyze_expr sc (ArrayAccess arr idx) =
     (case analyze_expr sc arr of
        Inl e \<Rightarrow> Inl e
      | Inr array_type \<Rightarrow>
          if \<not> endswith array_type ''[]'' then Inl (IndexNonArray array_type)
          else (case analyze_expr sc idx of
                  Inl e \<Rightarrow> Inl e
                | Inr index_type \<Rightarrow>
                    if index_type \<noteq> ''int'' then Inl (IndexNotInt index_type)
                    else Inr (drop_last2 array_type)))"
| "analyze_expr sc (BuiltInCall function args) =
     (let func = lower function in
      if func = ''len'' then
        (if length args \<noteq> 1 then Inl (BuiltinArity func (length args))
         else (case analyze_exprs sc args of
                 Inl e \<Rightarrow> Inl e
               | Inr ts \<Rightarrow>
                   if \<not> (endswith (ts ! 0) ''[]'' \<or> ts ! 0 = ''string'')
                   then Inl (BuiltinArgTypes func ts) else Inr ''int''))
      else if func = ''random'' then
        (if length args \<noteq> 2 then Inl (BuiltinArity func (length args))
         else (case analyze_exprs sc args of
                 Inl e \<Rightarrow> Inl e
               | Inr ts \<Rightarrow>
                   if \<not> is_numeric (ts ! 0) \<or> \<not> is_numeric (ts ! 1)
                   then Inl (BuiltinArgTypes func ts) else Inr ''int''))
      else if func = ''substr'' then
        (if length args \<noteq> 3 then Inl (BuiltinArity func (length args))
         else (case analyze_exprs sc args of
                 Inl e \<Rightarrow> Inl e
               | Inr ts \<Rightarrow>
                   if ts ! 0 \<noteq> ''string'' then Inl (BuiltinArgTypes func [ts ! 0])
                   else if ts ! 1 \<noteq> ''int'' \<or> ts ! 2 \<noteq> ''int''
                   then Inl (BuiltinArgTypes func [ts ! 1, ts ! 2]) else Inr ''string''))
      else if func = ''concat'' then
        (if length args \<noteq> 2 then Inl (BuiltinArity func (length args))
         else (case analyze_exprs sc args of
                 Inl e \<Rightarrow> Inl e
               | Inr ts \<Rightarrow>
                   if ts ! 0 \<noteq> ''string'' \<or> ts ! 1 \<noteq> ''string''
                   then Inl (BuiltinArgTypes func ts) else Inr ''string''))
      else if func = ''input'' then
        (if length args \<noteq> 1 then Inl (BuiltinArity func (length args))
         else (case analyze_exprs sc args of
                 Inl e \<Rightarrow> Inl e
               | Inr ts \<Rightarrow>
                   if ts ! 0 \<noteq> ''string'' then Inl (BuiltinArgTypes func ts)
                   else Inr ''string''))
      else Inl (UnknownBuiltin func))"
| "analyze_exprs sc [] = Inr []"
| "analyze_exprs sc (e # es) =
     (case analyze_expr sc e of
        Inl err \<Rightarrow> Inl err
      | Inr t \<Rightarrow> (case analyze_exprs sc es of Inl err \<Rightarrow> Inl err | Inr ts \<Rightarrow> Inr (t # ts)))"
| "analyze_args sc name i (arg # args) ((param_type, param_name) # params) =
     (case analyze_expr sc arg of
        Inl e \<Rightarrow> Inl e
      | Inr arg_type \<Rightarrow>
          if \<not> is_compatible_type param_type arg_type
          then Inl (ArgumentType i name param_type arg_type)
          else analyze_args sc name (i + 1) args params)"
| "analyze_args sc name i args params = Inr ()"
| "analyze_elems sc first_type [] = Inr ()"
| "analyze_elems sc first_type (elem # elems) =
     (case analyze_expr sc elem of
        Inl e \<Rightarrow> Inl e
      | Inr elem_type \<Rightarrow>
          if \<not> is_compatible_type first_type elem_type
          then Inl (ArrayElementTypes first_type elem_type)
          else analyze_elems sc first_type elems)"


text \<open>
  The analyzer's state: the current scope and the enclosing function.  Of the
  \<open>FunctionDef\<close> node kept in \<open>current_function\<close> only \<open>return_type\<close> is ever read, so
  that is what is stored.  \<open>SemanticAnalyzer.errors\<close> is appended to just before the
  exception is raised and is not modelled.
\<close>

record analyzer =
  current_scope :: SymbolTable
  current_function :: "string option"

definition init_analyzer :: analyzer where
  "init_analyzer = \<lparr>current_scope = new_table None, current_function = None\<rparr>"

definition enter_scope :: "analyzer \<Rightarrow> analyzer" where
  "enter_scope a = a\<lparr>current_scope := new_table (Some (current_scope a))\<rparr>"

definition exit_scope :: "analyzer \<Rightarrow> analyzer" where
  "exit_scope a =
     (case parent (current_scope a) of
        Some p \<Rightarrow> a\<lparr>current_scope := p\<rparr>
      | None \<Rightarrow> a)"

fun define_params :: "SymbolTable \<Rightarrow> (string \<times> string) list \<Rightarrow> semantic_error + SymbolTable" where
  "define_params tab [] = Inr tab"
| "define_params tab ((param_type, param_name) # ps) =
     (case define_sym tab param_name (VariableSymbol param_type True) of
        Inl e \<Rightarrow> Inl e
      | Inr tab' \<Rightarrow> define_params tab' ps)"

fun is_ReturnStatement :: "'f stmt \<Rightarrow> bool" where
  "is_ReturnStatement (ReturnStatement v) = True"
| "is_ReturnStatement s = False"

fun analyze_stmt :: "analyzer \<Rightarrow> 'f stmt \<Rightarrow> semantic_error + analyzer"
  and analyze_stmts :: "analyzer \<Rightarrow> 'f stmt list \<Rightarrow> semantic_error + analyzer"
where
  "analyze_stmt a (VarDeclaration var_type name initializer) =
     (if symbols (current_scope a) name \<noteq> None then Inl (VariableAlreadyDeclared name)
      else
        (case (case initializer of
                 None \<Rightarrow> Inr ()
               | Some e \<Rightarrow>
                   (case analyze_expr (current_scope a) e of
                      Inl err \<Rightarrow> Inl err
                    | Inr init_type \<Rightarrow>
                        if \<not> is_compatible_type var_type init_type
                        then Inl (DeclTypeMismatch init_type var_type name)
                        else Inr ())) of
           Inl err \<Rightarrow> Inl err
         | Inr u \<Rightarrow>
             (case define_sym (current_scope a) name
                     (VariableSymbol var_type (initializer \<noteq> None)) of
                Inl err \<Rightarrow> Inl err
              | Inr tab \<Rightarrow> Inr (a\<lparr>current_scope := tab\<rparr>))))"
| "analyze_stmt a (Assignment name val) =
     (case lookup (current_scope a) name of
        None \<Rightarrow> Inl (UndefinedVariable name)
      | Some s \<Rightarrow>
          if symbol_kind s \<noteq> ''variable'' then Inl (NotAVariable name)
          else (case analyze_expr (current_scope a) val of
                  Inl err \<Rightarrow> Inl err
                | Inr value_type \<Rightarrow>
                    if \<not> is_compatible_type (data_type s) value_type
                    then Inl (AssignTypeMismatch value_type (data_type s) name)
                    else Inr a))"
| "analyze_stmt a (ArrayAssignment arr idx val) =
     (case lookup (current_scope a) arr of
        None \<Rightarrow> Inl (UndefinedArray arr)
      | Some s \<Rightarrow>
          if \<not> endswith (data_type s) ''[]'' then Inl (NotAnArray arr)
          else (case analyze_expr (current_scope a) idx of
                  Inl err \<Rightarrow> Inl err
                | Inr index_type \<Rightarrow>
                    if index_type \<noteq> ''int'' then Inl (IndexNotInt index_type)
                    else (case analyze_expr (current_scope a) val of
                            Inl err \<Rightarrow> Inl err
                          | Inr value_type \<Rightarrow>
                              if \<not> is_compatible_type (drop_last2 (data_type s)) value_type
                              then Inl (ArrayElemMismatch value_type (drop_last2 (data_type s)))
                              else Inr a)))"
| "analyze_stmt a (IfStatement cond then_block else_block) =
     (case analyze_expr (current_scope a) cond of
        Inl err \<Rightarrow> Inl err
      | Inr cond_type \<Rightarrow>
          if cond_type \<noteq> ''bool'' then Inl (IfCondition cond_type)
          else (case analyze_stmts (enter_scope a) then_block of
                  Inl err \<Rightarrow> Inl err
                | Inr a1 \<Rightarrow>
                    (case else_block of
                       Some (st # sts) \<Rightarrow>
                         (case analyze_stmts (enter_scope (exit_scope a1)) (st # sts) of
                            Inl err \<Rightarrow> Inl err
                          | Inr a2 \<Rightarrow> Inr (exit_scope a2))
                     | _ \<Rightarrow> Inr (exit_scope a1))))"
| "analyze_stmt a (WhileStatement cond body) =
     (case analyze_expr (current_scope a) cond of
        Inl err \<Rightarrow> Inl err
      | Inr cond_type \<Rightarrow>
          if cond_type \<noteq> ''bool'' then Inl (WhileCondition cond_type)
          else (case analyze_stmts (enter_scope a) body of
                  Inl err \<Rightarrow> Inl err
                | Inr a1 \<Rightarrow> Inr (exit_scope a1)))"
| "analyze_stmt a (ForStatement init cond update body) =
     (case analyze_stmt (enter_scope a) init of
        Inl err \<Rightarrow> Inl err
      | Inr a1 \<Rightarrow>
          (case analyze_expr (current_scope a1) cond of
             Inl err \<Rightarrow> Inl err
           | Inr cond_type \<Rightarrow>
               if cond_type \<noteq> ''bool'' then Inl (ForCondition cond_type)
               else (case analyze_stmt a1 update of
                       Inl err \<Rightarrow> Inl err
                     | Inr a2 \<Rightarrow>
                         (case analyze_stmts a2 body of
                            Inl err \<Rightarrow> Inl err
                          | Inr a3 \<Rightarrow> Inr (exit_scope a3)))))"
| "analyze_stmt a (FunctionDef return_type name params body) =
     (if symbols (current_scope a) name \<noteq> None then Inl (FunctionAlreadyDeclared name)
      else
        (case define_sym (current_scope a) name (FunctionSymbol return_type params) of
           Inl err \<Rightarrow> Inl err
         | Inr tab \<Rightarrow>
             (case define_params (new_table (Some tab)) params of
                Inl err \<Rightarrow> Inl err
              | Inr ptab \<Rightarrow>
                  (case analyze_stmts
                          \<lparr>current_scope = ptab, current_function = Some return_type\<rparr> body of
                     Inl err \<Rightarrow> Inl err
                   | Inr a1 \<Rightarrow>
                       if return_type \<noteq> ''void'' \<and> \<not> list_ex is_ReturnStatement body
                       then Inl (MissingReturn name return_type)
                       else Inr (exit_scope (a1\<lparr>current_function := current_function a\<rparr>))))))"
| "analyze_stmt a (ReturnStatement val) =
     (case current_function a of
        None \<Rightarrow> Inl ReturnOutsideFunction
      | Some expected_type \<Rightarrow>
          (case val of
             Some e \<Rightarrow>
               (case analyze_expr (current_scope a) e of
                  Inl err \<Rightarrow> Inl err
                | Inr actual_type \<Rightarrow>
                    if \<not> is_compatible_type expected_type actual_type
                    then Inl (ReturnTypeMismatch expected_type actual_type)
                    else Inr a)
           | None \<Rightarrow>
               if expected_type \<noteq> ''void'' then Inl (MustReturnValue expected_type)
               else Inr a))"
| "analyze_stmt a (PrintStatement exprs) =
     (case analyze_exprs (current_scope a) exprs of Inl err \<Rightarrow> Inl err | Inr ts \<Rightarrow> Inr a)"
| "analyze_stmt a (Block stmts) = analyze_stmts a stmts"
| "analyze_stmt a (ExprStatement e) =
     (case analyze_expr (current_scope a) e of Inl err \<Rightarrow> Inl err | Inr t \<Rightarrow> Inr a)"
| "analyze_stmts a [] = Inr a"
| "analyze_stmts a (st # sts) =
     (case analyze_stmt a st of Inl err \<Rightarrow> Inl err | Inr a' \<Rightarrow> analyze_stmts a' sts)"

fun analyze_Program :: "analyzer \<Rightarrow> 'f program \<Rightarrow> semantic_error + analyzer" where
  "analyze_Program a (Program statements) = analyze_stmts a statements"


text \<open>The chain of scopes from a table to the root, innermost first.\<close>

fun scope_chain :: "SymbolTable \<Rightarrow> SymbolTable list" where
  "scope_chain (SymbolTable syms par lvl) =
     SymbolTable syms par lvl # (case par of None \<Rightarrow> [] | Some p \<Rightarrow> scope_chain p)"


section \<open>Errors\<close>

text \<open>
  Exceptions are values.  \<open>SyntaxError line column message\<close> is what \<open>Lexer.error\<close>
  raises (its text: "Lexical error at line l, column c: message"); \<open>RuntimeError\<close> is
  the interpreter's own exception class with its message.  The other constructors are
  the host's exceptions, raised by Python itself and not by a \<open>raise\<close> of the program.
\<close>

datatype error =
  SyntaxError nat nat string
  | RuntimeError string
  | TypeError
  | ZeroDivisionError
  | OverflowError
  | ValueError
  | IndexError
  | KeyError
  | AttributeError


section \<open>Lexer: string literals (lexer.py)\<close>

text \<open>
  The scanner's state.  \<open>Lexer.tokens\<close> is written by \<open>tokenize\<close> only and is not part
  of what \<open>read_string\<close> reads or writes.
\<close>

record lexer =
  source :: string
  pos :: nat
  line :: nat
  column :: nat

record 'v token =
  token_type :: string
  token_value :: 'v
  token_line :: nat
  token_column :: nat

definition init_lexer :: "string \<Rightarrow> lexer" where
  "init_lexer source_code = \<lparr>source = source_code, pos = 0, line = 1, column = 1\<rparr>"

definition peek :: "lexer \<Rightarrow> nat \<Rightarrow> char option" where
  "peek lx offset =
     (if pos lx + offset < length (source lx) then Some (source lx ! (pos lx + offset))
      else None)"

definition advance :: "lexer \<Rightarrow> char option \<times> lexer" where
  "advance lx =
     (if pos lx \<ge> length (source lx) then (None, lx)
      else
        (let c = source lx ! pos lx in
         (Some c,
          if c = CHR 0x0A then lx\<lparr>pos := pos lx + 1, line := line lx + 1, column := 1\<rparr>
          else lx\<lparr>pos := pos lx + 1, column := column lx + 1\<rparr>)))"

definition lexer_error :: "lexer \<Rightarrow> string \<Rightarrow> error" where
  "lexer_error lx message = SyntaxError (line lx) (column lx) message"

text \<open>
  The \<open>while\<close> loop of \<open>read_string\<close>, with \<open>string_value\<close> as accumulator.  After a
  backslash the next character is peeked; when there is none, \<open>string_value += None\<close>
  raises the host's \<open>TypeError\<close>.
\<close>

function read_string_loop :: "lexer \<Rightarrow> string \<Rightarrow> error + (lexer \<times> string)" where
  "read_string_loop lx string_value =
     (case peek lx 0 of
        None \<Rightarrow> Inr (lx, string_value)
      | Some c \<Rightarrow>
          if c = CHR 0x22 then Inr (lx, string_value)
          else if c = CHR 0x5C then
            (let lx1 = snd (advance lx) in
             case peek lx1 0 of
               None \<Rightarrow> Inl TypeError
             | Some next_char \<Rightarrow>
                 if next_char = CHR ''n'' then
                   read_string_loop (snd (advance lx1)) (string_value @ [CHR 0x0A])
                 else if next_char = CHR ''t'' then
                   read_string_loop (snd (advance lx1)) (string_value @ [CHR 0x09])
                 else if next_char = CHR 0x5C then
                   read_string_loop (snd (advance lx1)) (string_value @ [CHR 0x5C])
                 else if next_char = CHR 0x22 then
                   read_string_loop (snd (advance lx1)) (string_value @ [CHR 0x22])
                 else
                   read_string_loop (snd (advance lx1)) (string_value @ [next_char]))
          else read_string_loop (snd (advance lx)) (string_value @ [c]))"
  by pat_completeness auto
termination
  by (relation "measure (\<lambda>(lx, sv). length (source lx) - pos lx)")
     (auto simp: peek_def advance_def Let_def split: if_splits)

definition read_string :: "lexer \<Rightarrow> error + (string token \<times> lexer)" where
  "read_string lx =
     (let start_line = line lx; start_column = column lx; lx0 = snd (advance lx) in
      case read_string_loop lx0 [] of
        Inl e \<Rightarrow> Inl e
      | Inr (lx1, string_value) \<Rightarrow>
          if peek lx1 0 = None then Inl (lexer_error lx1 ''Unterminated string literal'')
          else Inr (\<lparr>token_type = ''STRING_LITERAL'', token_value = string_value,
                      token_line = start_line, token_column = start_column\<rparr>,
                    snd (advance lx1)))"


section \<open>Host functions on strings\<close>

text \<open>
  Python's \<open>str(i)\<close>, \<open>int(s)\<close> and the syntax accepted by \<open>float(s)\<close>, on ASCII strings.
  \<open>int(s)\<close> and \<open>float(s)\<close> strip the surrounding ASCII whitespace (tab, line feed,
  vertical tab, form feed, carriage return, space), take an optional sign and allow
  single underscores between digits; \<open>float\<close> reads \<open>[digits][.digits][e[sign]digits]\<close>
  and, in any letter case, \<open>inf\<close>, \<open>infinity\<close> and \<open>nan\<close>.  \<open>int(s)\<close> raises \<open>ValueError\<close> for
  more than 4300 digits (the default limit of CPython from 3.11 on).
\<close>

definition is_digit :: "char \<Rightarrow> bool" where
  "is_digit c = (48 \<le> (of_char c :: nat) \<and> (of_char c :: nat) \<le> 57)"

definition is_space :: "char \<Rightarrow> bool" where
  "is_space c =
     (let n = (of_char c :: nat) in (9 \<le> n \<and> n \<le> 13) \<or> n = 32)"

definition strip :: "string \<Rightarrow> string" where
  "strip s = rev (dropWhile is_space (rev (dropWhile is_space s)))"

function str_nat :: "nat \<Rightarrow> string" where
  "str_nat n =
     (if n < 10 then [''0123456789'' ! n] else str_nat (n div 10) @ [''0123456789'' ! (n mod 10)])"
  by pat_completeness auto
termination
  by (relation "measure id") auto

definition str_int :: "int \<Rightarrow> string" where
  "str_int i = (if i < 0 then CHR ''-'' # str_nat (nat (- i)) else str_nat (nat i))"

fun digitrest :: "string \<Rightarrow> bool" where
  "digitrest [] = True"
| "digitrest [c] = is_digit c"
| "digitrest (c # d # cs) =
     (if c = CHR ''_'' then is_digit d \<and> digitrest cs else is_digit c \<and> digitrest (d # cs))"

definition digitpart :: "string \<Rightarrow> bool" where
  "digitpart s = (case s of [] \<Rightarrow> False | c # cs \<Rightarrow> is_digit c \<and> digitrest cs)"

definition nat_of_digits :: "string \<Rightarrow> nat" where
  "nat_of_digits s =
     foldl (\<lambda>a c. 10 * a + ((of_char c :: nat) - 48)) 0 (filter (\<lambda>c. c \<noteq> CHR ''_'') s)"

definition is_sign :: "char \<Rightarrow> bool" where
  "is_sign c = (c = CHR ''+'' \<or> c = CHR ''-'')"

definition unsigned :: "string \<Rightarrow> string" where
  "unsigned s = (case s of [] \<Rightarrow> [] | c # cs \<Rightarrow> if is_sign c then cs else s)"

definition py_int :: "string \<Rightarrow> int option" where
  "py_int s =
     (let t = strip s; u = unsigned t in
      if \<not> digitpart u then None
      else if length (filter is_digit u) > 4300 then None
      else if t \<noteq> [] \<and> hd t = CHR ''-'' then Some (- int (nat_of_digits u))
      else Some (int (nat_of_digits u)))"

definition float_number :: "string \<Rightarrow> bool" where
  "float_number m =
     (let a = takeWhile (\<lambda>c. c \<noteq> CHR ''.'') m; b = dropWhile (\<lambda>c. c \<noteq> CHR ''.'') m in
      if b = [] then digitpart a
      else (a = [] \<or> digitpart a) \<and> (tl b = [] \<or> digitpart (tl b)) \<and> \<not> (a = [] \<and> tl b = []))"

definition float_syntax :: "string \<Rightarrow> bool" where
  "float_syntax s =
     (let u = unsigned (strip s);
          m = takeWhile (\<lambda>c. c \<noteq> CHR ''e'' \<and> c \<noteq> CHR ''E'') u;
          x = dropWhile (\<lambda>c. c \<noteq> CHR ''e'' \<and> c \<noteq> CHR ''E'') u in
      lower u = ''inf'' \<or> lower u = ''infinity'' \<or> lower u = ''nan'' \<or>
      (float_number m \<and> (x = [] \<or> digitpart (unsigned (tl x)))))"


section \<open>Three-address code (ir\_generator.py)\<close>

text \<open>
  The fields \<open>arg1\<close> and \<open>arg2\<close> of a \<open>ThreeAddressCode\<close> hold Python objects: \<open>None\<close>, a
  string (a name or the text of a literal), the int argument count of a \<open>call\<close>, the
  pair of a \<open>builtin_substr\<close>, or a constant written back by the optimizer.  The same
  type serves for the interpreter's runtime values, where \<open>VList a\<close> is a reference to
  the list object at address \<open>a\<close>.  \<open>result\<close> is \<open>None\<close> or a string.
\<close>

datatype 'f val =
  VNone
  | VBool bool
  | VInt int
  | VFloat 'f
  | VStr string
  | VTuple "'f val" "'f val"
  | VList nat

record 'f instr =
  op :: string
  arg1 :: "'f val"
  arg2 :: "'f val"
  result :: "string option"

definition ThreeAddressCode ::
    "string \<Rightarrow> 'f val \<Rightarrow> 'f val \<Rightarrow> string option \<Rightarrow> 'f instr" where
  "ThreeAddressCode oper a1 a2 res = \<lparr>op = oper, arg1 = a1, arg2 = a2, result = res\<rparr>"


section \<open>The host's numbers and objects\<close>

text \<open>
  Python's floating-point arithmetic is a parameter: a record of the operations the
  program applies to floats, over the type \<open>'f\<close> of float values.  Everything proved
  holds for every such record.  \<open>float_of_int\<close> is \<open>None\<close> where Python raises
  \<open>OverflowError\<close>, \<open>int_of_float\<close> (Python's \<open>int(x)\<close>) and \<open>float_pow\<close> may raise, and
  the comparisons between an int and a float are exact.  Python's complex numbers, which only \<open>**\<close> of a negative base to a
  fractional power produces, are counted among the floats.  The record also holds
  what the host does with operands that are tuples or lists (\<open>object_binop\<close>, which may
  allocate), \<open>str\<close> of such an object, and the string formatting \<open>s % v\<close>.
\<close>

type_synonym 'f heap = "'f val list list"

record 'f host =
  float_of_str :: "string \<Rightarrow> 'f"
  float_of_int :: "int \<Rightarrow> 'f option"
  int_of_float :: "'f \<Rightarrow> error + int"
  float_str :: "'f \<Rightarrow> string"
  float_neg :: "'f \<Rightarrow> 'f"
  float_add :: "'f \<Rightarrow> 'f \<Rightarrow> 'f"
  float_sub :: "'f \<Rightarrow> 'f \<Rightarrow> 'f"
  float_mul :: "'f \<Rightarrow> 'f \<Rightarrow> 'f"
  float_div :: "'f \<Rightarrow> 'f \<Rightarrow> 'f"
  float_mod :: "'f \<Rightarrow> 'f \<Rightarrow> 'f"
  float_pow :: "'f \<Rightarrow> 'f \<Rightarrow> error + 'f"
  float_lt :: "'f \<Rightarrow> 'f \<Rightarrow> bool"
  float_eq :: "'f \<Rightarrow> 'f \<Rightarrow> bool"
  int_lt_float :: "int \<Rightarrow> 'f \<Rightarrow> bool"
  float_lt_int :: "'f \<Rightarrow> int \<Rightarrow> bool"
  int_eq_float :: "int \<Rightarrow> 'f \<Rightarrow> bool"
  str_format :: "string \<Rightarrow> 'f val \<Rightarrow> error + string"
  object_binop :: "string \<Rightarrow> 'f heap \<Rightarrow> 'f val \<Rightarrow> 'f val \<Rightarrow> error + 'f val \<times> 'f heap"
  object_str :: "'f heap \<Rightarrow> 'f val \<Rightarrow> string"


section \<open>Python operators\<close>

text \<open>
  The operators of Python on the values \<open>None\<close>, bools, ints, floats and strings.
  \<open>bool\<close> is a subclass of \<open>int\<close>: \<open>int_like\<close> is the integer an \<open>isinstance(v, int)\<close>
  value stands for.  Integer \<open>//\<close> and \<open>%\<close> round toward minus infinity, as \<open>div\<close> and
  \<open>mod\<close> on \<open>int\<close> do.  An operand that is a tuple or a list is handled by the
  interpreter before these functions are reached.
\<close>

fun int_like :: "'f val \<Rightarrow> int option" where
  "int_like (VInt i) = Some i"
| "int_like (VBool b) = Some (if b then 1 else 0)"
| "int_like v = None"

fun is_object :: "'f val \<Rightarrow> bool" where
  "is_object (VTuple a b) = True"
| "is_object (VList a) = True"
| "is_object v = False"

definition float_is_zero :: "'f host \<Rightarrow> 'f \<Rightarrow> bool" where
  "float_is_zero H x = int_eq_float H 0 x"

text \<open>The float a number converts to; \<open>None\<close> for a value that is not a number.\<close>

definition to_float :: "'f host \<Rightarrow> 'f val \<Rightarrow> (error + 'f) option" where
  "to_float H v =
     (case v of
        VFloat x \<Rightarrow> Some (Inr x)
      | _ \<Rightarrow>
          (case int_like v of
             None \<Rightarrow> None
           | Some i \<Rightarrow>
               (case float_of_int H i of
                  None \<Rightarrow> Some (Inl OverflowError)
                | Some x \<Rightarrow> Some (Inr x))))"

text \<open>A float operation on two numbers: both are converted first; an operand that is
  not a number is a \<open>TypeError\<close>.\<close>

definition float_arith ::
    "'f host \<Rightarrow> ('f \<Rightarrow> 'f \<Rightarrow> error + 'f val) \<Rightarrow> 'f val \<Rightarrow> 'f val \<Rightarrow> error + 'f val" where
  "float_arith H f l r =
     (case to_float H l of
        None \<Rightarrow> Inl TypeError
      | Some a \<Rightarrow>
          (case to_float H r of
             None \<Rightarrow> Inl TypeError
           | Some b \<Rightarrow>
               (case a of
                  Inl e \<Rightarrow> Inl e
                | Inr x \<Rightarrow> (case b of Inl e \<Rightarrow> Inl e | Inr y \<Rightarrow> f x y))))"

definition py_eq :: "'f host \<Rightarrow> 'f val \<Rightarrow> 'f val \<Rightarrow> bool" where
  "py_eq H l r =
     (case (int_like l, int_like r) of
        (Some a, Some b) \<Rightarrow> a = b
      | (Some a, None) \<Rightarrow> (case r of VFloat y \<Rightarrow> int_eq_float H a y | _ \<Rightarrow> False)
      | (None, Some b) \<Rightarrow> (case l of VFloat x \<Rightarrow> int_eq_float H b x | _ \<Rightarrow> False)
      | (None, None) \<Rightarrow>
          (case (l, r) of
             (VFloat x, VFloat y) \<Rightarrow> float_eq H x y
           | (VStr s, VStr t) \<Rightarrow> s = t
           | (VNone, VNone) \<Rightarrow> True
           | _ \<Rightarrow> False))"

definition repeat_str :: "int \<Rightarrow> string \<Rightarrow> string" where
  "repeat_str n s = concat (replicate (nat n) s)"

definition py_add :: "'f host \<Rightarrow> 'f val \<Rightarrow> 'f val \<Rightarrow> error + 'f val" where
  "py_add H l r =
     (case (int_like l, int_like r) of
        (Some a, Some b) \<Rightarrow> Inr (VInt (a + b))
      | _ \<Rightarrow>
          (case (l, r) of
             (VStr s, VStr t) \<Rightarrow> Inr (VStr (s @ t))
           | _ \<Rightarrow> float_arith H (\<lambda>x y. Inr (VFloat (float_add H x y))) l r))"

definition py_sub :: "'f host \<Rightarrow> 'f val \<Rightarrow> 'f val \<Rightarrow> error + 'f val" where
  "py_sub H l r =
     (case (int_like l, int_like r) of
        (Some a, Some b) \<Rightarrow> Inr (VInt (a - b))
      | _ \<Rightarrow> float_arith H (\<lambda>x y. Inr (VFloat (float_sub H x y))) l r)"

definition py_mul :: "'f host \<Rightarrow> 'f val \<Rightarrow> 'f val \<Rightarrow> error + 'f val" where
  "py_mul H l r =
     (case (int_like l, int_like r) of
        (Some a, Some b) \<Rightarrow> Inr (VInt (a * b))
      | (Some a, None) \<Rightarrow>
          (case r of
             VStr t \<Rightarrow> Inr (VStr (repeat_str a t))
           | _ \<Rightarrow> float_arith H (\<lambda>x y. Inr (VFloat (float_mul H x y))) l r)
      | (None, Some b) \<Rightarrow>
          (case l of
             VStr s \<Rightarrow> Inr (VStr (repeat_str b s))
           | _ \<Rightarrow> float_arith H (\<lambda>x y. Inr (VFloat (float_mul H x y))) l r)
      | _ \<Rightarrow> float_arith H (\<lambda>x y. Inr (VFloat (float_mul H x y))) l r)"

text \<open>\<open>left // right\<close>, which the program applies to two \<open>isinstance(v, int)\<close> values only.\<close>

definition py_floordiv :: "'f val \<Rightarrow> 'f val \<Rightarrow> error + 'f val" where
  "py_floordiv l r =
     (case (int_like l, int_like r) of
        (Some a, Some b) \<Rightarrow> if b = 0 then Inl ZeroDivisionError else Inr (VInt (a div b))
      | _ \<Rightarrow> Inl TypeError)"

text \<open>\<open>left / right\<close>, which the program applies only when an operand is not an int.
  Both operands are converted to floats; the divisor is then zero exactly when the
  Python value \<open>right == 0\<close>.\<close>

definition py_truediv :: "'f host \<Rightarrow> 'f val \<Rightarrow> 'f val \<Rightarrow> error + 'f val" where
  "py_truediv H l r =
     float_arith H
       (\<lambda>x y. if py_eq H r (VInt 0) then Inl ZeroDivisionError
               else Inr (VFloat (float_div H x y))) l r"

definition py_mod :: "'f host \<Rightarrow> 'f val \<Rightarrow> 'f val \<Rightarrow> error + 'f val" where
  "py_mod H l r =
     (case (int_like l, int_like r) of
        (Some a, Some b) \<Rightarrow> if b = 0 then Inl ZeroDivisionError else Inr (VInt (a mod b))
      | _ \<Rightarrow>
          (case l of
             VStr s \<Rightarrow> (case str_format H s r of Inl e \<Rightarrow> Inl e | Inr t \<Rightarrow> Inr (VStr t))
           | _ \<Rightarrow>
               float_arith H
                 (\<lambda>x y. if py_eq H r (VInt 0) then Inl ZeroDivisionError
                         else Inr (VFloat (float_mod H x y))) l r))"

definition py_pow :: "'f host \<Rightarrow> 'f val \<Rightarrow> 'f val \<Rightarrow> error + 'f val" where
  "py_pow H l r =
     (case (int_like l, int_like r) of
        (Some a, Some b) \<Rightarrow>
          if 0 \<le> b then Inr (VInt (a ^ nat b))
          else float_arith H
                 (\<lambda>x y. case float_pow H x y of Inl e \<Rightarrow> Inl e | Inr z \<Rightarrow> Inr (VFloat z)) l r
      | _ \<Rightarrow>
          float_arith H
            (\<lambda>x y. case float_pow H x y of Inl e \<Rightarrow> Inl e | Inr z \<Rightarrow> Inr (VFloat z)) l r)"

fun str_lt :: "string \<Rightarrow> string \<Rightarrow> bool" where
  "str_lt [] [] = False"
| "str_lt [] (y # ys) = True"
| "str_lt (x # xs) [] = False"
| "str_lt (x # xs) (y # ys) =
     (if (of_char x :: nat) < of_char y then True
      else if x = y then str_lt xs ys else False)"

definition py_lt :: "'f host \<Rightarrow> 'f val \<Rightarrow> 'f val \<Rightarrow> error + bool" where
  "py_lt H l r =
     (case (int_like l, int_like r) of
        (Some a, Some b) \<Rightarrow> Inr (a < b)
      | (Some a, None) \<Rightarrow> (case r of VFloat y \<Rightarrow> Inr (int_lt_float H a y) | _ \<Rightarrow> Inl TypeError)
      | (None, Some b) \<Rightarrow> (case l of VFloat x \<Rightarrow> Inr (float_lt_int H x b) | _ \<Rightarrow> Inl TypeError)
      | (None, None) \<Rightarrow>
          (case (l, r) of
             (VFloat x, VFloat y) \<Rightarrow> Inr (float_lt H x y)
           | (VStr s, VStr t) \<Rightarrow> Inr (str_lt s t)
           | _ \<Rightarrow> Inl TypeError))"

definition py_le :: "'f host \<Rightarrow> 'f val \<Rightarrow> 'f val \<Rightarrow> error + bool" where
  "py_le H l r =
     (case py_lt H l r of Inl e \<Rightarrow> Inl e | Inr b \<Rightarrow> Inr (b \<or> py_eq H l r))"

definition py_neg :: "'f host \<Rightarrow> 'f val \<Rightarrow> error + 'f val" where
  "py_neg H v =
     (case int_like v of
        Some a \<Rightarrow> Inr (VInt (- a))
      | None \<Rightarrow> (case v of VFloat x \<Rightarrow> Inr (VFloat (float_neg H x)) | _ \<Rightarrow> Inl TypeError))"

text \<open>The list object at an address, and Python's truth value of an object.\<close>

definition heap_get :: "'f heap \<Rightarrow> nat \<Rightarrow> 'f val list" where
  "heap_get hp a = (if a < length hp then hp ! a else [])"

fun truthy :: "'f host \<Rightarrow> 'f heap \<Rightarrow> 'f val \<Rightarrow> bool" where
  "truthy H hp VNone = False"
| "truthy H hp (VBool b) = b"
| "truthy H hp (VInt i) = (i \<noteq> 0)"
| "truthy H hp (VFloat x) = (\<not> float_is_zero H x)"
| "truthy H hp (VStr s) = (s \<noteq> [])"
| "truthy H hp (VTuple a b) = True"
| "truthy H hp (VList a) = (heap_get hp a \<noteq> [])"

definition bool_result :: "error + bool \<Rightarrow> error + 'f val" where
  "bool_result r = (case r of Inl e \<Rightarrow> Inl e | Inr b \<Rightarrow> Inr (VBool b))"


section \<open>Optimizer (optimizer.py)\<close>

subsection \<open>Helper methods\<close>

text \<open>\<open>value[1:-1]\<close> of a string.\<close>

definition strip_quotes :: "string \<Rightarrow> string" where
  "strip_quotes s = take (length s - 2) (drop 1 s)"

definition quoted :: "string \<Rightarrow> bool" where
  "quoted s = (startswith s [CHR 0x22] \<and> endswith s [CHR 0x22])"

fun is_constant :: "'f val \<Rightarrow> bool" where
  "is_constant (VInt i) = True"
| "is_constant (VFloat x) = True"
| "is_constant (VBool b) = True"
| "is_constant (VStr s) = (if quoted s then True else float_syntax s)"
| "is_constant v = False"

fun get_constant_value :: "'f host \<Rightarrow> 'f val \<Rightarrow> 'f val" where
  "get_constant_value H (VInt i) = VInt i"
| "get_constant_value H (VFloat x) = VFloat x"
| "get_constant_value H (VBool b) = VBool b"
| "get_constant_value H (VStr s) =
     (if quoted s then VStr (strip_quotes s)
      else if CHR ''.'' \<in> set s then
        (if float_syntax s then VFloat (float_of_str H s) else VNone)
      else (case py_int s of Some i \<Rightarrow> VInt i | None \<Rightarrow> VNone))"
| "get_constant_value H v = VNone"

text \<open>Truthiness of a field that is \<open>None\<close> or a string, and of an operand that is also
  required to be a string (\<open>x and isinstance(x, str)\<close>).\<close>

fun truthy_name :: "string option \<Rightarrow> bool" where
  "truthy_name None = False"
| "truthy_name (Some s) = (s \<noteq> [])"

fun truthy_str :: "'f val \<Rightarrow> bool" where
  "truthy_str (VStr s) = (s \<noteq> [])"
| "truthy_str v = False"

fun is_str :: "'f val \<Rightarrow> bool" where
  "is_str (VStr s) = True"
| "is_str v = False"

fun str_of :: "'f val \<Rightarrow> string" where
  "str_of (VStr s) = s"
| "str_of v = []"

definition evaluate_operation ::
    "'f host \<Rightarrow> string \<Rightarrow> 'f val \<Rightarrow> 'f val \<Rightarrow> error + 'f val" where
  "evaluate_operation H oper left right =
     (if oper = ''+'' then py_add H left right
      else if oper = ''-'' then py_sub H left right
      else if oper = ''*'' then py_mul H left right
      else if oper = ''/'' then
        (if int_like left \<noteq> None \<and> int_like right \<noteq> None then py_floordiv left right
         else py_truediv H left right)
      else if oper = ''%'' then py_mod H left right
      else if oper = ''**'' then py_pow H left right
      else if oper = ''<'' then bool_result (py_lt H left right)
      else if oper = ''>'' then bool_result (py_lt H right left)
      else if oper = ''<='' then bool_result (py_le H left right)
      else if oper = ''>='' then bool_result (py_le H right left)
      else if oper = ''=='' then Inr (VBool (py_eq H left right))
      else if oper = ''!='' then Inr (VBool (\<not> py_eq H left right))
      else Inl ValueError)"

subsection \<open>Constant folding\<close>

text \<open>
  The dict \<open>constants\<close> is keyed by the \<open>result\<close> fields it was written under.  An
  operand is found in it when it is that string (or \<open>None\<close>); \<open>x in constants\<close> is false
  for an operand of any other type.
\<close>

type_synonym 'f env = "string option \<rightharpoonup> 'f val"

fun name_key :: "'f val \<Rightarrow> string option option" where
  "name_key (VStr s) = Some (Some s)"
| "name_key VNone = Some None"
| "name_key v = None"

definition env_get :: "(string option \<rightharpoonup> 'a) \<Rightarrow> 'f val \<Rightarrow> 'a option" where
  "env_get env v = (case name_key v of None \<Rightarrow> None | Some k \<Rightarrow> env k)"

text \<open>\<open>constants.get(a) if a in constants else self.get_constant_value(a) if
  self.is_constant(a) else None\<close>\<close>

definition operand_value :: "'f host \<Rightarrow> 'f env \<Rightarrow> 'f val \<Rightarrow> 'f val" where
  "operand_value H constants a =
     (case env_get constants a of
        Some v \<Rightarrow> v
      | None \<Rightarrow> if is_constant a then get_constant_value H a else VNone)"

text \<open>
  The body of the loop of \<open>constant_folding\<close>: from the dict \<open>constants\<close> and one
  instruction, the updated dict and the instruction appended to \<open>optimized\<close> (every
  iteration appends exactly one).  The bare \<open>except\<close> around \<open>evaluate_operation\<close> keeps
  the instruction on any exception; the unary branch has no \<open>try\<close>, so an exception of
  \<open>-arg_val\<close> would leave the pass.
\<close>

definition fold_step :: "'f host \<Rightarrow> 'f instr \<Rightarrow> 'f env \<Rightarrow> error + ('f env \<times> 'f instr)" where
  "fold_step H instr constants =
     (if op instr \<in> set [''label'', ''goto'', ''if_false'', ''if_true'']
      then Inr (Map.empty, instr)
      else if op instr = ''assign'' then
        (if is_constant (arg1 instr) then
           Inr (constants(result instr \<mapsto> get_constant_value H (arg1 instr)), instr)
         else
           (case env_get constants (arg1 instr) of
              Some v \<Rightarrow>
                Inr (constants(result instr \<mapsto> v),
                     ThreeAddressCode ''assign'' v VNone (result instr))
            | None \<Rightarrow> Inr (constants(result instr := None), instr)))
      else if op instr \<in> set [''+'', ''-'', ''*'', ''/'', ''%'', ''**'',
                                ''<'', ''>'', ''<='', ''>='', ''=='', ''!='']
      then
        (let arg1_val = operand_value H constants (arg1 instr);
             arg2_val = operand_value H constants (arg2 instr)
         in
           if arg1_val \<noteq> VNone \<and> arg2_val \<noteq> VNone then
             (case evaluate_operation H (op instr) arg1_val arg2_val of
                Inr result_val \<Rightarrow>
                  Inr (constants(result instr \<mapsto> result_val),
                       ThreeAddressCode ''assign'' result_val VNone (result instr))
              | Inl e \<Rightarrow> Inr (constants, instr))
           else Inr (constants(result instr := None), instr))
      else if op instr \<in> set [''-'', ''not''] then
        (let arg_val = operand_value H constants (arg1 instr) in
         if arg_val \<noteq> VNone then
           (case (if op instr = ''-'' then py_neg H arg_val
                  else Inr (VBool (\<not> truthy H [] arg_val))) of
              Inl e \<Rightarrow> Inl e
            | Inr result_val \<Rightarrow>
                Inr (constants(result instr \<mapsto> result_val),
                     ThreeAddressCode ''assign'' result_val VNone (result instr)))
         else Inr (constants, instr))
      else
        Inr (if truthy_name (result instr) then constants(result instr := None) else constants,
             instr))"

fun fold_loop ::
    "'f host \<Rightarrow> 'f instr list \<Rightarrow> 'f env \<Rightarrow> 'f instr list \<Rightarrow> error + 'f instr list" where
  "fold_loop H [] constants optimized = Inr optimized"
| "fold_loop H (instr # code) constants optimized =
     (case fold_step H instr constants of
        Inl e \<Rightarrow> Inl e
      | Inr (constants', out) \<Rightarrow> fold_loop H code constants' (optimized @ [out]))"

definition constant_folding :: "'f host \<Rightarrow> 'f instr list \<Rightarrow> error + 'f instr list" where
  "constant_folding H code = fold_loop H code Map.empty []"

subsection \<open>Copy propagation\<close>

text \<open>\<open>copies.get(a, a)\<close>, and the same under \<open>a and isinstance(a, str) and a in copies\<close>.\<close>

definition copy_of :: "(string option \<rightharpoonup> string) \<Rightarrow> 'f val \<Rightarrow> 'f val" where
  "copy_of copies a = (case env_get copies a of Some src \<Rightarrow> VStr src | None \<Rightarrow> a)"

definition copy_of_str :: "(string option \<rightharpoonup> string) \<Rightarrow> 'f val \<Rightarrow> 'f val" where
  "copy_of_str copies a = (if truthy_str a then copy_of copies a else a)"

text \<open>The body of the loop of \<open>copy_propagation\<close>: the updated dict \<open>copies\<close> and the
  instruction appended.\<close>

definition propagate_step ::
    "'f instr \<Rightarrow> (string option \<rightharpoonup> string) \<Rightarrow> (string option \<rightharpoonup> string) \<times> 'f instr" where
  "propagate_step instr copies =
     (if op instr \<in> set [''label'', ''goto'', ''if_false'', ''if_true'']
      then (Map.empty, instr)
      else if op instr = ''assign'' \<and> is_str (arg1 instr) \<and> \<not> is_constant (arg1 instr)
      then (copies(result instr \<mapsto> str_of (arg1 instr)), instr)
      else if op instr \<in> set [''+'', ''-'', ''*'', ''/'', ''%'', ''**'', ''<'', ''>'', ''<='',
                                ''>='', ''=='', ''!='', ''and'', ''or'']
      then
        (copies(result instr := None),
         ThreeAddressCode (op instr) (copy_of copies (arg1 instr))
           (copy_of copies (arg2 instr)) (result instr))
      else if op instr \<in> set [''-'', ''not''] then
        (copies(result instr := None),
         ThreeAddressCode (op instr) (copy_of copies (arg1 instr)) VNone (result instr))
      else
        (if truthy_name (result instr) then copies(result instr := None) else copies,
         ThreeAddressCode (op instr) (copy_of_str copies (arg1 instr))
           (copy_of_str copies (arg2 instr)) (result instr)))"

fun propagate_loop ::
    "'f instr list \<Rightarrow> (string option \<rightharpoonup> string) \<Rightarrow> 'f instr list \<Rightarrow> 'f instr list" where
  "propagate_loop [] copies optimized = optimized"
| "propagate_loop (instr # code) copies optimized =
     (case propagate_step instr copies of
        (copies', out) \<Rightarrow> propagate_loop code copies' (optimized @ [out]))"

definition copy_propagation :: "'f instr list \<Rightarrow> 'f instr list" where
  "copy_propagation code = propagate_loop code Map.empty []"

subsection \<open>Dead-code elimination\<close>

text \<open>The body of the first loop: what one instruction adds to \<open>used_vars\<close>.\<close>

definition mark_used :: "'f instr \<Rightarrow> string set \<Rightarrow> string set" where
  "mark_used instr used_vars =
     (let u1 = (if truthy_str (arg1 instr) \<and> \<not> is_constant (arg1 instr)
                then insert (str_of (arg1 instr)) used_vars else used_vars);
          u2 = (if truthy_str (arg2 instr) \<and> \<not> is_constant (arg2 instr)
                then insert (str_of (arg2 instr)) u1 else u1)
      in
        if op instr \<in> set [''if_false'', ''if_true'', ''return'', ''print'', ''param'', ''call'']
        then
          (let u3 = (if truthy_str (arg1 instr) then insert (str_of (arg1 instr)) u2 else u2)
           in if truthy_name (result instr) \<and> op instr \<noteq> ''label''
              then insert (the (result instr)) u3 else u3)
        else u2)"

fun collect_used :: "'f instr list \<Rightarrow> string set \<Rightarrow> string set" where
  "collect_used [] used_vars = used_vars"
| "collect_used (instr # code) used_vars = collect_used code (mark_used instr used_vars)"

text \<open>The second loop, with the list \<open>optimized\<close> as accumulator.\<close>

fun eliminate :: "string set \<Rightarrow> 'f instr list \<Rightarrow> 'f instr list \<Rightarrow> 'f instr list" where
  "eliminate used_vars [] optimized = optimized"
| "eliminate used_vars (instr # code) optimized =
     (if op instr \<in> set [''label'', ''goto'', ''if_false'', ''if_true'', ''begin_func'',
                           ''end_func'', ''print'', ''return'', ''call'', ''param'']
      then eliminate used_vars code (optimized @ [instr])
      else if truthy_name (result instr) then
        (if the (result instr) \<in> used_vars \<or> \<not> startswith (the (result instr)) ''t''
         then eliminate used_vars code (optimized @ [instr])
         else eliminate used_vars code optimized)
      else eliminate used_vars code (optimized @ [instr]))"

definition dead_code_elimination :: "'f instr list \<Rightarrow> 'f instr list" where
  "dead_code_elimination code = eliminate (collect_used code {}) code []"

subsection \<open>The three passes in order\<close>

definition optimize :: "'f host \<Rightarrow> 'f instr list \<Rightarrow> error + 'f instr list" where
  "optimize H code =
     (case constant_folding H code of
        Inl e \<Rightarrow> Inl e
      | Inr folded \<Rightarrow> Inr (dead_code_elimination (copy_propagation folded)))"

text \<open>
  Dead-code elimination as claim C8 words it.  The used set holds the names that
  appear as operands anywhere (a name is a non-empty string that is not a constant;
  the pair of a \<open>builtin_substr\<close> holds two operands) and the results of every
  \<open>print\<close>, \<open>return\<close>, \<open>call\<close>, \<open>param\<close>, \<open>if_false\<close> and \<open>if_true\<close>.  The listed
  operations are kept, an instruction with a result is kept when the result is used
  or does not start with \<open>t\<close>, and every other instruction is dropped.
\<close>

fun operand_names :: "'f val \<Rightarrow> string set" where
  "operand_names (VStr s) = (if s \<noteq> [] \<and> \<not> is_constant (VStr s :: 'f val) then {s} else {})"
| "operand_names (VTuple a b) = operand_names a \<union> operand_names b"
| "operand_names v = {}"







section \<open>Interpreter (interpreter.py)\<close>

text \<open>
  A call frame is a dict with the keys \<open>return_address\<close>, \<open>saved_vars\<close>, \<open>params\<close>,
  \<open>return_value\<close> and, once the first \<open>param_decl\<close> has run, \<open>param_index\<close>.  The state of
  the interpreter: its attributes (\<open>output\<close> is \<open>captured_output\<close> here), the heap of list objects that array values refer to,
  what \<open>print\<close> and \<open>input\<close> have written to the host's standard output, the lines
  \<open>input\<close> will read, and the numbers \<open>random.randint\<close> will draw.  The dict
  \<open>functions\<close> (here \<open>function_table\<close>) is the list of its assignments, latest first,
  each with the operand it was stored under; a lookup takes the first entry whose key
  equals the operand looked up.  The dict \<open>variables\<close> holds the entries whose key is a
  string or \<open>None\<close>, the only keys an instruction ever reads; a \<open>param_decl\<close> whose
  operand is neither binds nothing that can be read.  The code is never written and is
  passed beside the state.
\<close>

record 'f frame =
  return_address :: nat
  saved_vars :: "'f env"
  params :: "'f val list"
  return_value :: "'f val"
  param_index :: "nat option"

record 'f vm =
  variables :: "'f env"
  function_table :: "('f val \<times> nat) list"
  call_stack :: "'f frame list"
  pc :: nat
  captured_output :: "string list"
  stdout :: string
  heap :: "'f heap"
  stdin :: "string list"
  random_draws :: "nat list"

text \<open>Equality of two operands as keys of a dict: Python's \<open>==\<close>, componentwise on
  pairs.  (A list is never an operand of the code.)\<close>

fun key_eq :: "'f host \<Rightarrow> 'f val \<Rightarrow> 'f val \<Rightarrow> bool" where
  "key_eq H (VTuple a b) v =
     (case v of VTuple c d \<Rightarrow> key_eq H a c \<and> key_eq H b d | _ \<Rightarrow> False)"
| "key_eq H u v = py_eq H u v"

definition lookup_function :: "'f host \<Rightarrow> ('f val \<times> nat) list \<Rightarrow> 'f val \<Rightarrow> nat option" where
  "lookup_function H table name =
     map_option snd (find (\<lambda>entry. key_eq H (fst entry) name) table)"

fun build_function_table ::
    "'f instr list \<Rightarrow> nat \<Rightarrow> ('f val \<times> nat) list \<Rightarrow> ('f val \<times> nat) list" where
  "build_function_table [] i fs = fs"
| "build_function_table (instr # code) i fs =
     build_function_table code (i + 1)
       (if op instr = ''begin_func'' then (arg1 instr, i + 1) # fs else fs)"

definition init_vm :: "'f instr list \<Rightarrow> string list \<Rightarrow> nat list \<Rightarrow> 'f vm" where
  "init_vm code input_lines draws =
     \<lparr>variables = Map.empty, function_table = build_function_table code 0 [],
      call_stack = [], pc = 0, captured_output = [], stdout = [], heap = [],
      stdin = input_lines, random_draws = draws\<rparr>"

text \<open>Python's \<open>xs[i]\<close> on a list: a negative index counts from the end.\<close>

definition py_index :: "'a list \<Rightarrow> int \<Rightarrow> error + 'a" where
  "py_index xs i =
     (let n = int (length xs); j = (if i < 0 then i + n else i) in
      if 0 \<le> j \<and> j < n then Inr (xs ! nat j) else Inl IndexError)"

text \<open>\<open>str(v)\<close>, and \<open>str\<close> of a field that is \<open>None\<close> or a string.\<close>

fun py_str :: "'f host \<Rightarrow> 'f heap \<Rightarrow> 'f val \<Rightarrow> string" where
  "py_str H hp VNone = ''None''"
| "py_str H hp (VBool b) = (if b then ''True'' else ''False'')"
| "py_str H hp (VInt i) = str_int i"
| "py_str H hp (VFloat x) = float_str H x"
| "py_str H hp (VStr s) = s"
| "py_str H hp v = object_str H hp v"

fun name_str :: "string option \<Rightarrow> string" where
  "name_str None = ''None''"
| "name_str (Some s) = s"

definition get_value :: "'f host \<Rightarrow> 'f env \<Rightarrow> 'f val \<Rightarrow> error + 'f val" where
  "get_value H vars operand =
     (case operand of
        VStr s \<Rightarrow>
          if quoted s then Inr (VStr (strip_quotes s))
          else
            (case (if CHR ''.'' \<in> set s
                   then (if float_syntax s then Some (VFloat (float_of_str H s)) else None)
                   else map_option VInt (py_int s)) of
               Some v \<Rightarrow> Inr v
             | None \<Rightarrow>
                 if s = ''true'' then Inr (VBool True)
                 else if s = ''false'' then Inr (VBool False)
                 else (case vars (Some s) of
                         None \<Rightarrow> Inl (RuntimeError (''Undefined variable: '' @ s))
                       | Some v \<Rightarrow> Inr v))
      | _ \<Rightarrow> Inr operand)"

fun find_label_from :: "'f instr list \<Rightarrow> nat \<Rightarrow> string option \<Rightarrow> nat option" where
  "find_label_from [] i label = None"
| "find_label_from (instr # code) i label =
     (if op instr = ''label'' \<and> result instr = label then Some i
      else find_label_from code (i + 1) label)"

definition find_label :: "'f instr list \<Rightarrow> string option \<Rightarrow> error + nat" where
  "find_label code label =
     (case find_label_from code 0 label of
        Some i \<Rightarrow> Inr i
      | None \<Rightarrow> Inl (RuntimeError (''Label not found: '' @ name_str label)))"

fun scan_function_end :: "'f instr list \<Rightarrow> nat \<Rightarrow> int \<Rightarrow> nat option" where
  "scan_function_end [] i depth = None"
| "scan_function_end (instr # code) i depth =
     (if op instr = ''begin_func'' then scan_function_end code (i + 1) (depth + 1)
      else if op instr = ''end_func'' then
        (if depth - 1 = 0 then Some (i + 1) else scan_function_end code (i + 1) (depth - 1))
      else scan_function_end code (i + 1) depth)"

definition find_function_end :: "'f instr list \<Rightarrow> nat \<Rightarrow> nat" where
  "find_function_end code start =
     (case scan_function_end (drop start code) start 0 of
        Some j \<Rightarrow> j
      | None \<Rightarrow> length code)"

definition set_var :: "'f vm \<Rightarrow> string option \<Rightarrow> 'f val \<Rightarrow> 'f vm" where
  "set_var st name v = st\<lparr>variables := (variables st)(name \<mapsto> v)\<rparr>"

text \<open>A binary operator of Python applied by the interpreter: an operand that is a
  tuple or a list goes to the host.\<close>

definition apply_binop ::
    "'f host \<Rightarrow> 'f heap \<Rightarrow> string \<Rightarrow> ('f val \<Rightarrow> 'f val \<Rightarrow> error + 'f val) \<Rightarrow> 'f val \<Rightarrow> 'f val
      \<Rightarrow> error + 'f val \<times> 'f heap" where
  "apply_binop H hp oper f l r =
     (if is_object l \<or> is_object r then object_binop H oper hp l r
      else (case f l r of Inl e \<Rightarrow> Inl e | Inr v \<Rightarrow> Inr (v, hp)))"

definition arithmetic ::
    "'f host \<Rightarrow> 'f heap \<Rightarrow> string \<Rightarrow> 'f val \<Rightarrow> 'f val \<Rightarrow> error + 'f val \<times> 'f heap" where
  "arithmetic H hp oper left right =
     (if oper = ''+'' then apply_binop H hp oper (py_add H) left right
      else if oper = ''-'' then apply_binop H hp oper (py_sub H) left right
      else if oper = ''*'' then apply_binop H hp oper (py_mul H) left right
      else if oper = ''/'' then
        (if py_eq H right (VInt 0) then Inl (RuntimeError ''Division by zero'')
         else if int_like left \<noteq> None \<and> int_like right \<noteq> None
         then apply_binop H hp ''//'' py_floordiv left right
         else apply_binop H hp oper (py_truediv H) left right)
      else if oper = ''%'' then
        (if py_eq H right (VInt 0) then Inl (RuntimeError ''Modulo by zero'')
         else apply_binop H hp oper (py_mod H) left right)
      else apply_binop H hp oper (py_pow H) left right)"

definition relational ::
    "'f host \<Rightarrow> 'f heap \<Rightarrow> string \<Rightarrow> 'f val \<Rightarrow> 'f val \<Rightarrow> error + 'f val \<times> 'f heap" where
  "relational H hp oper left right =
     (if oper = ''<'' then apply_binop H hp oper (\<lambda>l r. bool_result (py_lt H l r)) left right
      else if oper = ''>'' then apply_binop H hp oper (\<lambda>l r. bool_result (py_lt H r l)) left right
      else if oper = ''<='' then apply_binop H hp oper (\<lambda>l r. bool_result (py_le H l r)) left right
      else if oper = ''>='' then apply_binop H hp oper (\<lambda>l r. bool_result (py_le H r l)) left right
      else if oper = ''=='' then apply_binop H hp oper (\<lambda>l r. Inr (VBool (py_eq H l r))) left right
      else apply_binop H hp oper (\<lambda>l r. Inr (VBool (\<not> py_eq H l r))) left right)"

text \<open>The instructions with two operands and a result: arithmetic, relational, and
  the value-returning \<open>and\<close> and \<open>or\<close>.\<close>

definition exec_binary :: "'f host \<Rightarrow> 'f vm \<Rightarrow> 'f instr \<Rightarrow> error + 'f vm" where
  "exec_binary H st instr =
     (case get_value H (variables st) (arg1 instr) of
        Inl e \<Rightarrow> Inl e
      | Inr left \<Rightarrow>
          (case get_value H (variables st) (arg2 instr) of
             Inl e \<Rightarrow> Inl e
           | Inr right \<Rightarrow>
               (case (if op instr \<in> set [''+'', ''-'', ''*'', ''/'', ''%'', ''**'']
                      then arithmetic H (heap st) (op instr) left right
                      else if op instr \<in> set [''<'', ''>'', ''<='', ''>='', ''=='', ''!='']
                      then relational H (heap st) (op instr) left right
                      else if op instr = ''and''
                      then Inr (if truthy H (heap st) left then right else left, heap st)
                      else Inr (if truthy H (heap st) left then left else right, heap st)) of
                  Inl e \<Rightarrow> Inl e
                | Inr (v, hp) \<Rightarrow> Inr (set_var (st\<lparr>heap := hp\<rparr>) (result instr) v))))"


text \<open>\<open>param_decl\<close>: binds the next parameter of the top frame, when there is one.\<close>

definition exec_param_decl :: "'f vm \<Rightarrow> 'f instr \<Rightarrow> 'f vm" where
  "exec_param_decl st instr =
     (if call_stack st = [] then st
      else
        (let frame = last (call_stack st);
             idx = (case param_index frame of None \<Rightarrow> 0 | Some i \<Rightarrow> i)
         in
           if idx < length (params frame) then
             st\<lparr>variables :=
                  (case name_key (arg1 instr) of
                     Some name \<Rightarrow> (variables st)(name \<mapsto> params frame ! idx)
                   | None \<Rightarrow> variables st),
                call_stack := butlast (call_stack st) @ [frame\<lparr>param_index := Some (idx + 1)\<rparr>]\<rparr>
           else
             st\<lparr>call_stack := butlast (call_stack st) @ [frame\<lparr>param_index := Some idx\<rparr>]\<rparr>))"

text \<open>
  The loop of \<open>call\<close> over \<open>range(num_params)\<close>: it reads the instructions at the indices
  \<open>pc - num_params + i\<close> and appends the value of each one that is a \<open>param\<close>.
\<close>

fun gather_params ::
    "'f host \<Rightarrow> 'f instr list \<Rightarrow> 'f env \<Rightarrow> int list \<Rightarrow> 'f val list \<Rightarrow> error + 'f val list" where
  "gather_params H code vars [] ps = Inr ps"
| "gather_params H code vars (idx # idxs) ps =
     (case py_index code idx of
        Inl e \<Rightarrow> Inl e
      | Inr param_instr \<Rightarrow>
          if op param_instr = ''param'' then
            (case get_value H vars (arg1 param_instr) of
               Inl e \<Rightarrow> Inl e
             | Inr v \<Rightarrow> gather_params H code vars idxs (ps @ [v]))
          else gather_params H code vars idxs ps)"

definition exec_call :: "'f host \<Rightarrow> 'f instr list \<Rightarrow> 'f vm \<Rightarrow> 'f instr \<Rightarrow> error + 'f vm" where
  "exec_call H code st instr =
     (case int_like (arg2 instr) of
        None \<Rightarrow> Inl TypeError
      | Some num_params \<Rightarrow>
          (case gather_params H code (variables st)
                  (map (\<lambda>i. int (pc st) - num_params + int i) [0..<nat num_params]) [] of
             Inl e \<Rightarrow> Inl e
           | Inr ps \<Rightarrow>
               (case lookup_function H (function_table st) (arg1 instr) of
                  None \<Rightarrow>
                    Inl (RuntimeError (''Undefined function: '' @ py_str H (heap st) (arg1 instr)))
                | Some entry \<Rightarrow>
                    Inr (st\<lparr>call_stack := call_stack st @
                               [\<lparr>return_address = pc st + 1, saved_vars = variables st,
                                 params = ps, return_value = VNone, param_index = None\<rparr>],
                             pc := entry\<rparr>))))"

definition exec_return :: "'f host \<Rightarrow> 'f instr list \<Rightarrow> 'f vm \<Rightarrow> 'f instr \<Rightarrow> error + 'f vm" where
  "exec_return H code st instr =
     (if call_stack st = [] then Inr (st\<lparr>pc := length code\<rparr>)
      else
        (case (if arg1 instr \<noteq> VNone then get_value H (variables st) (arg1 instr)
               else Inr VNone) of
           Inl e \<Rightarrow> Inl e
         | Inr ret \<Rightarrow>
             (let frame = last (call_stack st);
                  st1 = st\<lparr>call_stack := butlast (call_stack st), variables := saved_vars frame\<rparr>
              in
                if ret \<noteq> VNone then
                  (case py_index code (int (return_address frame) - 1) of
                     Inl e \<Rightarrow> Inl e
                   | Inr call_instr \<Rightarrow>
                       Inr ((if truthy_name (result call_instr)
                             then set_var st1 (result call_instr) ret else st1)
                            \<lparr>pc := return_address frame\<rparr>))
                else Inr (st1\<lparr>pc := return_address frame\<rparr>))))"

text \<open>Arrays.  A list object lives in the heap; \<open>array.append\<close> and \<open>array[index] = value\<close>
  change it in place, for every variable that refers to it.\<close>

definition exec_array_init :: "'f vm \<Rightarrow> 'f instr \<Rightarrow> 'f vm" where
  "exec_array_init st instr =
     set_var (st\<lparr>heap := heap st @ [[]]\<rparr>) (result instr) (VList (length (heap st)))"

definition exec_array_append :: "'f host \<Rightarrow> 'f vm \<Rightarrow> 'f instr \<Rightarrow> error + 'f vm" where
  "exec_array_append H st instr =
     (let st1 = (case variables st (result instr) of
                   None \<Rightarrow> st\<lparr>heap := heap st @ [[]]\<rparr>
                 | Some a \<Rightarrow> st);
          array = (case variables st (result instr) of
                     None \<Rightarrow> VList (length (heap st))
                   | Some a \<Rightarrow> a)
      in
        case get_value H (variables st) (arg1 instr) of
          Inl e \<Rightarrow> Inl e
        | Inr v \<Rightarrow>
            (case array of
               VList a \<Rightarrow>
                 Inr (set_var (st1\<lparr>heap := (heap st1)[a := heap_get (heap st1) a @ [v]]\<rparr>)
                        (result instr) array)
             | _ \<Rightarrow> Inl AttributeError))"

definition index_error :: "'f host \<Rightarrow> 'f heap \<Rightarrow> 'f val \<Rightarrow> error" where
  "index_error H hp index =
     RuntimeError (''Array index out of bounds: '' @ py_str H hp index)"

definition exec_array_get :: "'f host \<Rightarrow> 'f vm \<Rightarrow> 'f instr \<Rightarrow> error + 'f vm" where
  "exec_array_get H st instr =
     (case get_value H (variables st) (arg1 instr) of
        Inl e \<Rightarrow> Inl e
      | Inr array \<Rightarrow>
          (case get_value H (variables st) (arg2 instr) of
             Inl e \<Rightarrow> Inl e
           | Inr index \<Rightarrow>
               (case array of
                  VList a \<Rightarrow>
                    (case int_like index of
                       None \<Rightarrow> Inl (RuntimeError ''Array index must be integer'')
                     | Some i \<Rightarrow>
                         if i < 0 \<or> i \<ge> int (length (heap_get (heap st) a))
                         then Inl (index_error H (heap st) index)
                         else Inr (set_var st (result instr) (heap_get (heap st) a ! nat i)))
                | _ \<Rightarrow> Inl (RuntimeError ''Cannot index non-array type''))))"

definition exec_array_set :: "'f host \<Rightarrow> 'f vm \<Rightarrow> 'f instr \<Rightarrow> error + 'f vm" where
  "exec_array_set H st instr =
     (case variables st (result instr) of
        Some (VList a) \<Rightarrow>
          (case get_value H (variables st) (arg1 instr) of
             Inl e \<Rightarrow> Inl e
           | Inr index \<Rightarrow>
               (case get_value H (variables st) (arg2 instr) of
                  Inl e \<Rightarrow> Inl e
                | Inr v \<Rightarrow>
                    (case int_like index of
                       None \<Rightarrow> Inl (RuntimeError ''Array index must be integer'')
                     | Some i \<Rightarrow>
                         if i < 0 \<or> i \<ge> int (length (heap_get (heap st) a))
                         then Inl (index_error H (heap st) index)
                         else Inr (st\<lparr>heap := (heap st)[a := (heap_get (heap st) a)[nat i := v]]\<rparr>))))
      | _ \<Rightarrow> Inl (RuntimeError ''Cannot index non-array type''))"

text \<open>Built-ins.  \<open>int(v)\<close>, the slice \<open>s[i:j]\<close>, and the unpacking \<open>start, end = arg2\<close>.\<close>

definition py_int_of :: "'f host \<Rightarrow> 'f val \<Rightarrow> error + int" where
  "py_int_of H v =
     (case v of
        VInt i \<Rightarrow> Inr i
      | VBool b \<Rightarrow> Inr (if b then 1 else 0)
      | VFloat x \<Rightarrow> int_of_float H x
      | VStr s \<Rightarrow> (case py_int s of None \<Rightarrow> Inl ValueError | Some i \<Rightarrow> Inr i)
      | _ \<Rightarrow> Inl TypeError)"

definition slice_bound :: "nat \<Rightarrow> int \<Rightarrow> nat" where
  "slice_bound n i = (if i < 0 then nat (max (i + int n) 0) else min (nat i) n)"

definition py_slice :: "string \<Rightarrow> int \<Rightarrow> int \<Rightarrow> string" where
  "py_slice s i j =
     (let lo = slice_bound (length s) i; hi = slice_bound (length s) j in
      take (hi - lo) (drop lo s))"

definition unpack2 :: "'f heap \<Rightarrow> 'f val \<Rightarrow> error + 'f val \<times> 'f val" where
  "unpack2 hp v =
     (case v of
        VTuple a b \<Rightarrow> Inr (a, b)
      | VStr s \<Rightarrow> if length s = 2 then Inr (VStr [s ! 0], VStr [s ! 1]) else Inl ValueError
      | VList a \<Rightarrow>
          if length (heap_get hp a) = 2 then Inr (heap_get hp a ! 0, heap_get hp a ! 1)
          else Inl ValueError
      | _ \<Rightarrow> Inl TypeError)"

definition exec_builtin_len :: "'f host \<Rightarrow> 'f vm \<Rightarrow> 'f instr \<Rightarrow> error + 'f vm" where
  "exec_builtin_len H st instr =
     (case get_value H (variables st) (arg1 instr) of
        Inl e \<Rightarrow> Inl e
      | Inr arg \<Rightarrow>
          (case arg of
             VList a \<Rightarrow> Inr (set_var st (result instr) (VInt (int (length (heap_get (heap st) a)))))
           | VStr s \<Rightarrow> Inr (set_var st (result instr) (VInt (int (length s))))
           | _ \<Rightarrow> Inl (RuntimeError ''len() requires array or string'')))"

text \<open>\<open>random.randint(a, b)\<close> takes the next draw \<open>d\<close> and returns \<open>a + d mod (b - a + 1)\<close>;
  an empty range is a \<open>ValueError\<close>.\<close>

definition exec_builtin_random :: "'f host \<Rightarrow> 'f vm \<Rightarrow> 'f instr \<Rightarrow> error + 'f vm" where
  "exec_builtin_random H st instr =
     (case get_value H (variables st) (arg1 instr) of
        Inl e \<Rightarrow> Inl e
      | Inr min_val \<Rightarrow>
          (case get_value H (variables st) (arg2 instr) of
             Inl e \<Rightarrow> Inl e
           | Inr max_val \<Rightarrow>
               (case py_int_of H min_val of
                  Inl e \<Rightarrow> Inl e
                | Inr a \<Rightarrow>
                    (case py_int_of H max_val of
                       Inl e \<Rightarrow> Inl e
                     | Inr b \<Rightarrow>
                         if b < a then Inl ValueError
                         else
                           (case random_draws st of
                              [] \<Rightarrow> Inr (set_var st (result instr) (VInt a))
                            | d # ds \<Rightarrow>
                                Inr (set_var (st\<lparr>random_draws := ds\<rparr>) (result instr)
                                       (VInt (a + int d mod (b - a + 1)))))))))"

definition exec_builtin_substr :: "'f host \<Rightarrow> 'f vm \<Rightarrow> 'f instr \<Rightarrow> error + 'f vm" where
  "exec_builtin_substr H st instr =
     (case get_value H (variables st) (arg1 instr) of
        Inl e \<Rightarrow> Inl e
      | Inr str_val \<Rightarrow>
          (case unpack2 (heap st) (arg2 instr) of
             Inl e \<Rightarrow> Inl e
           | Inr (start, stop) \<Rightarrow>
               (case get_value H (variables st) start of
                  Inl e \<Rightarrow> Inl e
                | Inr start_val \<Rightarrow>
                    (case get_value H (variables st) stop of
                       Inl e \<Rightarrow> Inl e
                     | Inr end_val \<Rightarrow>
                         (case str_val of
                            VStr s \<Rightarrow>
                              (case py_int_of H start_val of
                                 Inl e \<Rightarrow> Inl e
                               | Inr i \<Rightarrow>
                                   (case py_int_of H end_val of
                                      Inl e \<Rightarrow> Inl e
                                    | Inr j \<Rightarrow>
                                        Inr (set_var st (result instr) (VStr (py_slice s i j)))))
                          | _ \<Rightarrow> Inl (RuntimeError ''substr() requires string''))))))"

definition exec_builtin_concat :: "'f host \<Rightarrow> 'f vm \<Rightarrow> 'f instr \<Rightarrow> error + 'f vm" where
  "exec_builtin_concat H st instr =
     (case get_value H (variables st) (arg1 instr) of
        Inl e \<Rightarrow> Inl e
      | Inr str1 \<Rightarrow>
          (case get_value H (variables st) (arg2 instr) of
             Inl e \<Rightarrow> Inl e
           | Inr str2 \<Rightarrow>
               (case (str1, str2) of
                  (VStr s, VStr t) \<Rightarrow> Inr (set_var st (result instr) (VStr (s @ t)))
                | _ \<Rightarrow> Inl (RuntimeError ''concat() requires string arguments''))))"

text \<open>\<open>input(prompt)\<close> writes the prompt and reads a line; at the end of the input the
  \<open>EOFError\<close> is caught and the result is the empty string.\<close>

definition exec_builtin_input :: "'f host \<Rightarrow> 'f vm \<Rightarrow> 'f instr \<Rightarrow> error + 'f vm" where
  "exec_builtin_input H st instr =
     (case get_value H (variables st) (arg1 instr) of
        Inl e \<Rightarrow> Inl e
      | Inr prompt \<Rightarrow>
          (case prompt of
             VStr s \<Rightarrow>
               (case stdin st of
                  [] \<Rightarrow> Inr (set_var (st\<lparr>stdout := stdout st @ s\<rparr>) (result instr) (VStr []))
                | l # ls \<Rightarrow>
                    Inr (set_var (st\<lparr>stdout := stdout st @ s, stdin := ls\<rparr>) (result instr)
                           (VStr l)))
           | _ \<Rightarrow> Inl (RuntimeError ''input() prompt must be string'')))"

text \<open>Assignment, \<open>not\<close>, jumps and \<open>print\<close>.\<close>

definition exec_assign :: "'f host \<Rightarrow> 'f vm \<Rightarrow> 'f instr \<Rightarrow> error + 'f vm" where
  "exec_assign H st instr =
     (case get_value H (variables st) (arg1 instr) of
        Inl e \<Rightarrow> Inl e
      | Inr v \<Rightarrow> Inr (set_var st (result instr) v))"

definition exec_not :: "'f host \<Rightarrow> 'f vm \<Rightarrow> 'f instr \<Rightarrow> error + 'f vm" where
  "exec_not H st instr =
     (case get_value H (variables st) (arg1 instr) of
        Inl e \<Rightarrow> Inl e
      | Inr operand \<Rightarrow>
          Inr (set_var st (result instr) (VBool (\<not> truthy H (heap st) operand))))"

definition jump :: "'f instr list \<Rightarrow> 'f vm \<Rightarrow> string option \<Rightarrow> error + 'f vm" where
  "jump code st label =
     (case find_label code label of Inl e \<Rightarrow> Inl e | Inr i \<Rightarrow> Inr (st\<lparr>pc := i\<rparr>))"

definition exec_if ::
    "'f host \<Rightarrow> 'f instr list \<Rightarrow> bool \<Rightarrow> 'f vm \<Rightarrow> 'f instr \<Rightarrow> error + 'f vm" where
  "exec_if H code sense st instr =
     (case get_value H (variables st) (arg1 instr) of
        Inl e \<Rightarrow> Inl e
      | Inr condition \<Rightarrow>
          if truthy H (heap st) condition = sense then jump code st (result instr)
          else Inr st)"

definition exec_print :: "'f host \<Rightarrow> 'f vm \<Rightarrow> 'f instr \<Rightarrow> error + 'f vm" where
  "exec_print H st instr =
     (case get_value H (variables st) (arg1 instr) of
        Inl e \<Rightarrow> Inl e
      | Inr v \<Rightarrow>
          (let output_str = py_str H (heap st) v in
           Inr (st\<lparr>captured_output := captured_output st @ [output_str],
                   stdout := stdout st @ output_str @ '' ''\<rparr>)))"

text \<open>The \<open>if\<close>/\<open>elif\<close> chain of \<open>execute_instruction\<close>, in the order of the source.  An
  operation that no branch names does nothing.\<close>

definition execute_instruction ::
    "'f host \<Rightarrow> 'f instr list \<Rightarrow> 'f vm \<Rightarrow> 'f instr \<Rightarrow> error + 'f vm" where
  "execute_instruction H code st instr =
     (if op instr = ''assign'' then exec_assign H st instr
      else if op instr \<in> set [''+'', ''-'', ''*'', ''/'', ''%'', ''**''] then exec_binary H st instr
      else if op instr \<in> set [''<'', ''>'', ''<='', ''>='', ''=='', ''!='']
      then exec_binary H st instr
      else if op instr \<in> set [''and'', ''or''] then exec_binary H st instr
      else if op instr = ''not'' then exec_not H st instr
      else if op instr = ''label'' then Inr st
      else if op instr = ''goto'' then jump code st (result instr)
      else if op instr = ''if_false'' then exec_if H code False st instr
      else if op instr = ''if_true'' then exec_if H code True st instr
      else if op instr = ''print'' then exec_print H st instr
      else if op instr = ''param'' then Inr st
      else if op instr = ''param_decl'' then Inr (exec_param_decl st instr)
      else if op instr = ''call'' then exec_call H code st instr
      else if op instr = ''return'' then exec_return H code st instr
      else if op instr = ''begin_func'' then Inr (st\<lparr>pc := find_function_end code (pc st)\<rparr>)
      else if op instr = ''end_func'' then Inr st
      else if op instr = ''array_init'' then Inr (exec_array_init st instr)
      else if op instr = ''array_append'' then exec_array_append H st instr
      else if op instr = ''array_get'' then exec_array_get H st instr
      else if op instr = ''array_set'' then exec_array_set H st instr
      else if op instr = ''builtin_len'' then exec_builtin_len H st instr
      else if op instr = ''builtin_random'' then exec_builtin_random H st instr
      else if op instr = ''builtin_substr'' then exec_builtin_substr H st instr
      else if op instr = ''builtin_concat'' then exec_builtin_concat H st instr
      else if op instr = ''builtin_input'' then exec_builtin_input H st instr
      else Inr st)"

text \<open>
  The loop of \<open>execute\<close>.  It may run forever, so it takes fuel: \<open>None\<close> means the fuel
  ran out before \<open>pc\<close> left the code, \<open>Some (Inl e)\<close> that the exception \<open>e\<close> ended the
  run, \<open>Some (Inr st)\<close> that the loop ended in the state \<open>st\<close>.  \<open>pc\<close> is incremented
  only when the instruction left it unchanged.
\<close>

fun execute_loop ::
    "'f host \<Rightarrow> 'f instr list \<Rightarrow> nat \<Rightarrow> 'f vm \<Rightarrow> (error + 'f vm) option" where
  "execute_loop H code 0 st = (if pc st < length code then None else Some (Inr st))"
| "execute_loop H code (Suc fuel) st =
     (if pc st < length code then
        (case execute_instruction H code st (code ! pc st) of
           Inl e \<Rightarrow> Some (Inl e)
         | Inr st' \<Rightarrow>
             execute_loop H code fuel (if pc st' = pc st then st'\<lparr>pc := pc st' + 1\<rparr> else st'))
      else Some (Inr st))"

definition execute ::
    "'f host \<Rightarrow> 'f instr list \<Rightarrow> string list \<Rightarrow> nat list \<Rightarrow> nat \<Rightarrow> (error + 'f vm) option" where
  "execute H code input_lines draws fuel =
     execute_loop H code fuel ((init_vm code input_lines draws)\<lparr>pc := 0\<rparr>)"

section \<open>IR generator (ir\_generator.py)\<close>

text \<open>
  The generator's state: the list \<open>code\<close> (here \<open>ir_code\<close>) and the two counters.  An expression's
  \<open>generate\<close> returns the string that names its value; a statement's returns
  \<open>None\<close>.  \<open>node.arguments[i]\<close> of a built-in call with too few arguments is the
  host's \<open>IndexError\<close>.
\<close>

record 'f irgen =
  ir_code :: "'f instr list"
  temp_count :: nat
  label_count :: nat

definition init_irgen :: "'f irgen" where
  "init_irgen = \<lparr>ir_code = [], temp_count = 0, label_count = 0\<rparr>"

definition new_temp :: "'f irgen \<Rightarrow> string \<times> 'f irgen" where
  "new_temp g = (''t'' @ str_nat (temp_count g), g\<lparr>temp_count := temp_count g + 1\<rparr>)"

definition new_label :: "'f irgen \<Rightarrow> string \<times> 'f irgen" where
  "new_label g = (''L'' @ str_nat (label_count g), g\<lparr>label_count := label_count g + 1\<rparr>)"

definition emit ::
    "'f irgen \<Rightarrow> string \<Rightarrow> 'f val \<Rightarrow> 'f val \<Rightarrow> string option \<Rightarrow> 'f irgen" where
  "emit g oper a1 a2 res = g\<lparr>ir_code := ir_code g @ [ThreeAddressCode oper a1 a2 res]\<rparr>"

fun generate_Literal :: "'f host \<Rightarrow> 'f literal \<Rightarrow> string" where
  "generate_Literal H (StrLit s) = [CHR 0x22] @ s @ [CHR 0x22]"
| "generate_Literal H (BoolLit b) = (if b then ''true'' else ''false'')"
| "generate_Literal H (IntLit i) = str_int i"
| "generate_Literal H (FloatLit x) = float_str H x"

fun generate_expr :: "'f host \<Rightarrow> 'f expr \<Rightarrow> 'f irgen \<Rightarrow> error + string \<times> 'f irgen"
  and generate_args :: "'f host \<Rightarrow> 'f expr list \<Rightarrow> 'f irgen \<Rightarrow> error + 'f irgen"
  and generate_elements ::
    "'f host \<Rightarrow> string \<Rightarrow> 'f expr list \<Rightarrow> 'f irgen \<Rightarrow> error + 'f irgen"
where
  "generate_expr H (Literal v t) g = Inr (generate_Literal H v, g)"
| "generate_expr H (Identifier name) g = Inr (name, g)"
| "generate_expr H (BinaryOp l oper r) g =
     (case generate_expr H l g of
        Inl e \<Rightarrow> Inl e
      | Inr (left, g1) \<Rightarrow>
          (case generate_expr H r g1 of
             Inl e \<Rightarrow> Inl e
           | Inr (right, g2) \<Rightarrow>
               (case new_temp g2 of
                  (res, g3) \<Rightarrow>
                    Inr (res, emit g3 (binop_str oper) (VStr left) (VStr right) (Some res)))))"
| "generate_expr H (UnaryOp oper e) g =
     (case generate_expr H e g of
        Inl err \<Rightarrow> Inl err
      | Inr (operand, g1) \<Rightarrow>
          (case new_temp g1 of
             (res, g2) \<Rightarrow> Inr (res, emit g2 (unop_str oper) (VStr operand) VNone (Some res))))"
| "generate_expr H (FunctionCall name args) g =
     (case generate_args H args g of
        Inl e \<Rightarrow> Inl e
      | Inr g1 \<Rightarrow>
          (case new_temp g1 of
             (res, g2) \<Rightarrow>
               Inr (res, emit g2 ''call'' (VStr name) (VInt (int (length args))) (Some res))))"
| "generate_expr H (ArrayLiteral elements) g =
     (case new_temp g of
        (temp, g1) \<Rightarrow>
          (case generate_elements H temp elements (emit g1 ''array_init'' VNone VNone (Some temp)) of
             Inl e \<Rightarrow> Inl e
           | Inr g2 \<Rightarrow> Inr (temp, g2)))"
| "generate_expr H (ArrayAccess arr idx) g =
     (case generate_expr H arr g of
        Inl e \<Rightarrow> Inl e
      | Inr (array_val, g1) \<Rightarrow>
          (case generate_expr H idx g1 of
             Inl e \<Rightarrow> Inl e
           | Inr (index_val, g2) \<Rightarrow>
               (case new_temp g2 of
                  (temp, g3) \<Rightarrow>
                    Inr (temp, emit g3 ''array_get'' (VStr array_val) (VStr index_val)
                                 (Some temp)))))"
| "generate_expr H (BuiltInCall function args) g =
     (case new_temp g of
        (temp, g0) \<Rightarrow>
          if lower function = ''len'' then
            (case args of
               a0 # rest \<Rightarrow>
                 (case generate_expr H a0 g0 of
                    Inl e \<Rightarrow> Inl e
                  | Inr (arg, g1) \<Rightarrow>
                      Inr (temp, emit g1 ''builtin_len'' (VStr arg) VNone (Some temp)))
             | _ \<Rightarrow> Inl IndexError)
          else if lower function = ''random'' then
            (case args of
               a0 # a1 # rest \<Rightarrow>
                 (case generate_expr H a0 g0 of
                    Inl e \<Rightarrow> Inl e
                  | Inr (min_val, g1) \<Rightarrow>
                      (case generate_expr H a1 g1 of
                         Inl e \<Rightarrow> Inl e
                       | Inr (max_val, g2) \<Rightarrow>
                           Inr (temp, emit g2 ''builtin_random'' (VStr min_val) (VStr max_val)
                                        (Some temp))))
             | _ \<Rightarrow> Inl IndexError)
          else if lower function = ''substr'' then
            (case args of
               a0 # a1 # a2 # rest \<Rightarrow>
                 (case generate_expr H a0 g0 of
                    Inl e \<Rightarrow> Inl e
                  | Inr (str_val, g1) \<Rightarrow>
                      (case generate_expr H a1 g1 of
                         Inl e \<Rightarrow> Inl e
                       | Inr (start_val, g2) \<Rightarrow>
                           (case generate_expr H a2 g2 of
                              Inl e \<Rightarrow> Inl e
                            | Inr (end_val, g3) \<Rightarrow>
                                Inr (temp, emit g3 ''builtin_substr'' (VStr str_val)
                                             (VTuple (VStr start_val) (VStr end_val))
                                             (Some temp)))))
             | _ \<Rightarrow> Inl IndexError)
          else if lower function = ''concat'' then
            (case args of
               a0 # a1 # rest \<Rightarrow>
                 (case generate_expr H a0 g0 of
                    Inl e \<Rightarrow> Inl e
                  | Inr (s1, g1) \<Rightarrow>
                      (case generate_expr H a1 g1 of
                         Inl e \<Rightarrow> Inl e
                       | Inr (s2, g2) \<Rightarrow>
                           Inr (temp, emit g2 ''builtin_concat'' (VStr s1) (VStr s2)
                                        (Some temp))))
             | _ \<Rightarrow> Inl IndexError)
          else if lower function = ''input'' then
            (case args of
               a0 # rest \<Rightarrow>
                 (case generate_expr H a0 g0 of
                    Inl e \<Rightarrow> Inl e
                  | Inr (prompt, g1) \<Rightarrow>
                      Inr (temp, emit g1 ''builtin_input'' (VStr prompt) VNone (Some temp)))
             | _ \<Rightarrow> Inl IndexError)
          else Inr (temp, g0))"
| "generate_args H [] g = Inr g"
| "generate_args H (arg # args) g =
     (case generate_expr H arg g of
        Inl e \<Rightarrow> Inl e
      | Inr (arg_val, g1) \<Rightarrow> generate_args H args (emit g1 ''param'' (VStr arg_val) VNone None))"
| "generate_elements H temp [] g = Inr g"
| "generate_elements H temp (elem # elems) g =
     (case generate_expr H elem g of
        Inl e \<Rightarrow> Inl e
      | Inr (elem_val, g1) \<Rightarrow>
          generate_elements H temp elems
            (emit g1 ''array_append'' (VStr elem_val) VNone (Some temp)))"

fun emit_param_decls :: "'f irgen \<Rightarrow> (string \<times> string) list \<Rightarrow> 'f irgen" where
  "emit_param_decls g [] = g"
| "emit_param_decls g ((param_type, param_name) # ps) =
     emit_param_decls (emit g ''param_decl'' (VStr param_name) VNone None) ps"

fun generate_prints :: "'f host \<Rightarrow> 'f expr list \<Rightarrow> 'f irgen \<Rightarrow> error + 'f irgen" where
  "generate_prints H [] g = Inr g"
| "generate_prints H (e # es) g =
     (case generate_expr H e g of
        Inl err \<Rightarrow> Inl err
      | Inr (v, g1) \<Rightarrow> generate_prints H es (emit g1 ''print'' (VStr v) VNone None))"

fun generate_stmt :: "'f host \<Rightarrow> 'f stmt \<Rightarrow> 'f irgen \<Rightarrow> error + 'f irgen"
  and generate_stmts :: "'f host \<Rightarrow> 'f stmt list \<Rightarrow> 'f irgen \<Rightarrow> error + 'f irgen"
where
  "generate_stmt H (VarDeclaration var_type name initializer) g =
     (case initializer of
        None \<Rightarrow> Inr g
      | Some e \<Rightarrow>
          (case generate_expr H e g of
             Inl err \<Rightarrow> Inl err
           | Inr (v, g1) \<Rightarrow> Inr (emit g1 ''assign'' (VStr v) VNone (Some name))))"
| "generate_stmt H (Assignment name e) g =
     (case generate_expr H e g of
        Inl err \<Rightarrow> Inl err
      | Inr (v, g1) \<Rightarrow> Inr (emit g1 ''assign'' (VStr v) VNone (Some name)))"
| "generate_stmt H (ArrayAssignment arr idx e) g =
     (case generate_expr H idx g of
        Inl err \<Rightarrow> Inl err
      | Inr (index_val, g1) \<Rightarrow>
          (case generate_expr H e g1 of
             Inl err \<Rightarrow> Inl err
           | Inr (value_val, g2) \<Rightarrow>
               Inr (emit g2 ''array_set'' (VStr index_val) (VStr value_val) (Some arr))))"
| "generate_stmt H (IfStatement cond then_block else_block) g =
     (case generate_expr H cond g of
        Inl err \<Rightarrow> Inl err
      | Inr (c, g1) \<Rightarrow>
          (case new_label g1 of
             (false_label, g2) \<Rightarrow>
               (case new_label g2 of
                  (end_label, g3) \<Rightarrow>
                    (case generate_stmts H then_block
                            (emit g3 ''if_false'' (VStr c) VNone (Some false_label)) of
                       Inl err \<Rightarrow> Inl err
                     | Inr g4 \<Rightarrow>
                         (case else_block of
                            Some (st # sts) \<Rightarrow>
                              (case generate_stmts H (st # sts)
                                      (emit (emit g4 ''goto'' VNone VNone (Some end_label))
                                         ''label'' VNone VNone (Some false_label)) of
                                 Inl err \<Rightarrow> Inl err
                               | Inr g5 \<Rightarrow> Inr (emit g5 ''label'' VNone VNone (Some end_label)))
                          | _ \<Rightarrow> Inr (emit g4 ''label'' VNone VNone (Some false_label)))))))"
| "generate_stmt H (WhileStatement cond body) g =
     (case new_label g of
        (start_label, g1) \<Rightarrow>
          (case new_label g1 of
             (end_label, g2) \<Rightarrow>
               (case generate_expr H cond (emit g2 ''label'' VNone VNone (Some start_label)) of
                  Inl err \<Rightarrow> Inl err
                | Inr (c, g3) \<Rightarrow>
                    (case generate_stmts H body
                            (emit g3 ''if_false'' (VStr c) VNone (Some end_label)) of
                       Inl err \<Rightarrow> Inl err
                     | Inr g4 \<Rightarrow>
                         Inr (emit (emit g4 ''goto'' VNone VNone (Some start_label))
                                ''label'' VNone VNone (Some end_label))))))"
| "generate_stmt H (ForStatement init cond update body) g =
     (case generate_stmt H init g of
        Inl err \<Rightarrow> Inl err
      | Inr g0 \<Rightarrow>
          (case new_label g0 of
             (start_label, g1) \<Rightarrow>
               (case new_label g1 of
                  (end_label, g2) \<Rightarrow>
                    (case generate_expr H cond
                            (emit g2 ''label'' VNone VNone (Some start_label)) of
                       Inl err \<Rightarrow> Inl err
                     | Inr (c, g3) \<Rightarrow>
                         (case generate_stmts H body
                                 (emit g3 ''if_false'' (VStr c) VNone (Some end_label)) of
                            Inl err \<Rightarrow> Inl err
                          | Inr g4 \<Rightarrow>
                              (case generate_stmt H update g4 of
                                 Inl err \<Rightarrow> Inl err
                               | Inr g5 \<Rightarrow>
                                   Inr (emit (emit g5 ''goto'' VNone VNone (Some start_label))
                                          ''label'' VNone VNone (Some end_label))))))))"
| "generate_stmt H (FunctionDef return_type name parameters body) g =
     (case generate_stmts H body
             (emit_param_decls (emit g ''begin_func'' (VStr name) VNone None) parameters) of
        Inl err \<Rightarrow> Inl err
      | Inr g1 \<Rightarrow> Inr (emit g1 ''end_func'' (VStr name) VNone None))"
| "generate_stmt H (ReturnStatement val) g =
     (case val of
        Some e \<Rightarrow>
          (case generate_expr H e g of
             Inl err \<Rightarrow> Inl err
           | Inr (v, g1) \<Rightarrow> Inr (emit g1 ''return'' (VStr v) VNone None))
      | None \<Rightarrow> Inr (emit g ''return'' VNone VNone None))"
| "generate_stmt H (PrintStatement exprs) g = generate_prints H exprs g"
| "generate_stmt H (Block stmts) g = generate_stmts H stmts g"
| "generate_stmt H (ExprStatement e) g =
     (case generate_expr H e g of Inl err \<Rightarrow> Inl err | Inr (v, g1) \<Rightarrow> Inr g1)"
| "generate_stmts H [] g = Inr g"
| "generate_stmts H (st # sts) g =
     (case generate_stmt H st g of Inl err \<Rightarrow> Inl err | Inr g1 \<Rightarrow> generate_stmts H sts g1)"

fun generate_Program :: "'f host \<Rightarrow> 'f program \<Rightarrow> 'f irgen \<Rightarrow> error + 'f irgen" where
  "generate_Program H (Program statements) g = generate_stmts H statements g"

text \<open>The driver (compiler.py): a fresh generator, then the optimizer, for a program
  that the analyzer has accepted.\<close>

definition compile_ir :: "'f host \<Rightarrow> 'f program \<Rightarrow> error + 'f instr list" where
  "compile_ir H prog =
     (case generate_Program H prog init_irgen of
        Inl e \<Rightarrow> Inl e
      | Inr g \<Rightarrow> optimize H (ir_code g))"

text \<open>The number of \<open>label\<close> instructions for a label name, and the jumps.\<close>

definition label_count_of :: "'f instr list \<Rightarrow> string option \<Rightarrow> nat" where
  "label_count_of c l = length (filter (\<lambda>i. op i = ''label'' \<and> result i = l) c)"

definition is_jump :: "'f instr \<Rightarrow> bool" where
  "is_jump i = (op i = ''goto'' \<or> op i = ''if_false'' \<or> op i = ''if_true'')"


section \<open>A host for concrete runs\<close>

text \<open>
  The theorems hold for every host.  To run the functions on concrete inputs a host
  is fixed here: its only float is \<open>0.0\<close>, it formats \<open>'%d' % i\<close> for an int \<open>i\<close> as
  Python does and raises \<open>TypeError\<close> for every other format string, and it raises
  \<open>TypeError\<close> for every operation on a tuple or a list.
\<close>

definition zero_float_host :: "unit host" where
  "zero_float_host =
     \<lparr>float_of_str = (\<lambda>s. ()),
      float_of_int = (\<lambda>i. if i = 0 then Some () else None),
      int_of_float = (\<lambda>x. Inr 0),
      float_str = (\<lambda>x. ''0.0''),
      float_neg = (\<lambda>x. ()),
      float_add = (\<lambda>x y. ()),
      float_sub = (\<lambda>x y. ()),
      float_mul = (\<lambda>x y. ()),
      float_div = (\<lambda>x y. ()),
      float_mod = (\<lambda>x y. ()),
      float_pow = (\<lambda>x y. Inr ()),
      float_lt = (\<lambda>x y. False),
      float_eq = (\<lambda>x y. True),
      int_lt_float = (\<lambda>i x. i < 0),
      float_lt_int = (\<lambda>x i. 0 < i),
      int_eq_float = (\<lambda>i x. i = 0),
      str_format = (\<lambda>s v. if s = ''%d'' then
                                (case int_like v of
                                   Some i \<Rightarrow> Inr (str_int i)
                                 | None \<Rightarrow> Inl TypeError)
                              else Inl TypeError),
      object_binop = (\<lambda>oper hp l r. Inl TypeError),
      object_str = (\<lambda>hp v. ''<object>'')\<rparr>"


section \<open>Example programs\<close>

text \<open>
  The tree the parser builds for \<open>int x = 2 + 3 * 4; print(x);\<close>, and the optimized code
  claim C1 names for it.
\<close>

definition sum_program :: "'f program" where
  "sum_program = Program
     [VarDeclaration ''int'' ''x''
        (Some (BinaryOp (Literal (IntLit 2) ''int'') OpAdd
                 (BinaryOp (Literal (IntLit 3) ''int'') OpMul (Literal (IntLit 4) ''int'')))),
      PrintStatement [Identifier ''x'']]"

definition sum_optimized :: "'f instr list" where
  "sum_optimized =
     [ThreeAddressCode ''assign'' (VInt 14) VNone (Some ''x''),
      ThreeAddressCode ''print'' (VStr ''x'') VNone None]"

text \<open>
  The tree for
  \<open>function int g(int c) { return c; } function int f(int a, int b) { return a + b; }
  print(f(1, g(2)));\<close>, a call one of whose arguments is itself a call, and its
  three-address code.
\<close>

definition nested_call_program :: "'f program" where
  "nested_call_program = Program
     [FunctionDef ''int'' ''g'' [(''int'', ''c'')]
        [ReturnStatement (Some (Identifier ''c''))],
      FunctionDef ''int'' ''f'' [(''int'', ''a''), (''int'', ''b'')]
        [ReturnStatement (Some (BinaryOp (Identifier ''a'') OpAdd (Identifier ''b'')))],
      PrintStatement [FunctionCall ''f''
         [Literal (IntLit 1) ''int'',
          FunctionCall ''g'' [Literal (IntLit 2) ''int'']]]]"

definition nested_call_ir :: "'f instr list" where
  "nested_call_ir =
     [ThreeAddressCode ''begin_func'' (VStr ''g'') VNone None,
      ThreeAddressCode ''param_decl'' (VStr ''c'') VNone None,
      ThreeAddressCode ''return'' (VStr ''c'') VNone None,
      ThreeAddressCode ''end_func'' (VStr ''g'') VNone None,
      ThreeAddressCode ''begin_func'' (VStr ''f'') VNone None,
      ThreeAddressCode ''param_decl'' (VStr ''a'') VNone None,
      ThreeAddressCode ''param_decl'' (VStr ''b'') VNone None,
      ThreeAddressCode ''+'' (VStr ''a'') (VStr ''b'') (Some ''t0''),
      ThreeAddressCode ''return'' (VStr ''t0'') VNone None,
      ThreeAddressCode ''end_func'' (VStr ''f'') VNone None,
      ThreeAddressCode ''param'' (VStr ''1'') VNone None,
      ThreeAddressCode ''param'' (VStr ''2'') VNone None,
      ThreeAddressCode ''call'' (VStr ''g'') (VInt 1) (Some ''t1''),
      ThreeAddressCode ''param'' (VStr ''t1'') VNone None,
      ThreeAddressCode ''call'' (VStr ''f'') (VInt 2) (Some ''t2''),
      ThreeAddressCode ''print'' (VStr ''t2'') VNone None]"

text \<open>
  The tree for
  \<open>int x = 5; function int f() { string x = "%d"; return 1; } int y = x % 0; print(y);\<close>,
  its three-address code and the code the optimizer makes of it.
\<close>

definition modulo_program :: "'f program" where
  "modulo_program = Program
     [VarDeclaration ''int'' ''x'' (Some (Literal (IntLit 5) ''int'')),
      FunctionDef ''int'' ''f'' []
        [VarDeclaration ''string'' ''x'' (Some (Literal (StrLit ''%d'') ''string'')),
         ReturnStatement (Some (Literal (IntLit 1) ''int''))],
      VarDeclaration ''int'' ''y''
        (Some (BinaryOp (Identifier ''x'') OpMod (Literal (IntLit 0) ''int''))),
      PrintStatement [Identifier ''y'']]"

definition modulo_ir :: "'f instr list" where
  "modulo_ir =
     [ThreeAddressCode ''assign'' (VStr ''5'') VNone (Some ''x''),
      ThreeAddressCode ''begin_func'' (VStr ''f'') VNone None,
      ThreeAddressCode ''assign'' (VStr [CHR 0x22, CHR 0x25, CHR ''d'', CHR 0x22]) VNone
        (Some ''x''),
      ThreeAddressCode ''return'' (VStr ''1'') VNone None,
      ThreeAddressCode ''end_func'' (VStr ''f'') VNone None,
      ThreeAddressCode ''%'' (VStr ''x'') (VStr ''0'') (Some ''t0''),
      ThreeAddressCode ''assign'' (VStr ''t0'') VNone (Some ''y''),
      ThreeAddressCode ''print'' (VStr ''y'') VNone None]"

definition modulo_optimized :: "'f instr list" where
  "modulo_optimized =
     [ThreeAddressCode ''assign'' (VStr ''5'') VNone (Some ''x''),
      ThreeAddressCode ''begin_func'' (VStr ''f'') VNone None,
      ThreeAddressCode ''assign'' (VStr [CHR 0x22, CHR 0x25, CHR ''d'', CHR 0x22]) VNone
        (Some ''x''),
      ThreeAddressCode ''return'' (VStr ''1'') VNone None,
      ThreeAddressCode ''end_func'' (VStr ''f'') VNone None,
      ThreeAddressCode ''assign'' (VStr ''0'') VNone (Some ''y''),
      ThreeAddressCode ''print'' (VStr ''y'') VNone None]"


(* ==== properties ==== *)

section \<open>Properties of the symbol table\<close>

lemma analyze_expr_not_redeclaration:
  "analyze_expr sc (e :: 'f expr) \<noteq> Inl (Redeclaration n) \<and>
   analyze_expr sc e \<noteq> Inl (VariableAlreadyDeclared n)"
  "analyze_exprs sc (es :: 'f expr list) \<noteq> Inl (Redeclaration n) \<and>
   analyze_exprs sc es \<noteq> Inl (VariableAlreadyDeclared n)"
  "analyze_args sc nm i (args :: 'f expr list) ps \<noteq> Inl (Redeclaration n) \<and>
   analyze_args sc nm i args ps \<noteq> Inl (VariableAlreadyDeclared n)"
  "analyze_elems sc ft (els :: 'f expr list) \<noteq> Inl (Redeclaration n) \<and>
   analyze_elems sc ft els \<noteq> Inl (VariableAlreadyDeclared n)"
  by (induction sc e and sc es and sc nm i args ps and sc ft els
      rule: analyze_expr_analyze_exprs_analyze_args_analyze_elems.induct)
     (auto split: sum.splits option.splits symbol.splits list.splits unop.splits if_splits
           simp: Let_def)

lemma lookup_scope_chain:
  "lookup tab name =
     (case find (\<lambda>s. name \<in> dom (symbols s)) (scope_chain tab) of
        None \<Rightarrow> None
      | Some s \<Rightarrow> symbols s name)"
  by (induction tab name rule: lookup.induct) (auto split: option.splits)

lemma define_sym_fails_iff:
  "(define_sym tab name info = Inl (Redeclaration name)) = (name \<in> dom (symbols tab))"
  "isl (define_sym tab name info) = (name \<in> dom (symbols tab))"
  by (auto simp: define_sym_def)

lemma define_sym_shadows:
  "name \<notin> dom (symbols tab) \<Longrightarrow>
   \<exists>tab'. define_sym tab name info = Inr tab' \<and> lookup tab' name = Some info \<and>
          parent tab' = parent tab"
  by (cases tab) (auto simp: define_sym_def)

lemma VarDeclaration_redeclared_iff:
  "(\<exists>n. analyze_stmt a (VarDeclaration t name init) = Inl (VariableAlreadyDeclared n) \<or>
        analyze_stmt a (VarDeclaration t name init) = Inl (Redeclaration n))
   = (name \<in> dom (symbols (current_scope a)))"
  using analyze_expr_not_redeclaration(1)
  by (auto split: sum.splits option.splits if_splits simp: define_sym_def)

lemma VarDeclaration_shadows:
  "name \<notin> dom (symbols (current_scope a)) \<Longrightarrow>
   (case init of None \<Rightarrow> True
    | Some e \<Rightarrow> \<exists>ty. analyze_expr (current_scope a) e = Inr ty \<and> is_compatible_type t ty) \<Longrightarrow>
   \<exists>a'. analyze_stmt a (VarDeclaration t name init) = Inr a' \<and>
        lookup (current_scope a') name = Some (VariableSymbol t (init \<noteq> None)) \<and>
        parent (current_scope a') = parent (current_scope a)"
  by (cases "current_scope a") (auto split: option.splits simp: define_sym_def)

text \<open>
  Claim C7.  Declaring a name fails with a redeclaration error exactly when the name is
  already bound in the current (innermost) scope: this holds for \<open>SymbolTable.define\<close>
  and for \<open>analyze_VarDeclaration\<close>.  A name bound only in an enclosing scope can be
  declared: the declaration succeeds, leaves the enclosing scopes as they are, and
  \<open>lookup\<close> then finds the new binding.  \<open>lookup\<close> returns the binding of the first
  scope, walking from the current scope toward the root, that binds the name.
\<close>

theorem redeclaration_checks_current_scope_only:
  "(isl (define_sym tab name info) \<longleftrightarrow> name \<in> dom (symbols tab)) \<and>
   (define_sym tab name info = Inl (Redeclaration name) \<longleftrightarrow> name \<in> dom (symbols tab)) \<and>
   ((\<exists>n. analyze_stmt a (VarDeclaration t name init) = Inl (VariableAlreadyDeclared n) \<or>
         analyze_stmt a (VarDeclaration t name init) = Inl (Redeclaration n))
      \<longleftrightarrow> name \<in> dom (symbols (current_scope a))) \<and>
   (name \<notin> dom (symbols tab) \<longrightarrow>
      (\<exists>tab'. define_sym tab name info = Inr tab' \<and> lookup tab' name = Some info \<and>
              parent tab' = parent tab)) \<and>
   (name \<notin> dom (symbols (current_scope a)) \<and>
    (case init of None \<Rightarrow> True
     | Some e \<Rightarrow> \<exists>ty. analyze_expr (current_scope a) e = Inr ty \<and> is_compatible_type t ty) \<longrightarrow>
      (\<exists>a'. analyze_stmt a (VarDeclaration t name init) = Inr a' \<and>
            lookup (current_scope a') name = Some (VariableSymbol t (init \<noteq> None)) \<and>
            parent (current_scope a') = parent (current_scope a))) \<and>
   lookup tab name =
     (case find (\<lambda>s. name \<in> dom (symbols s)) (scope_chain tab) of
        None \<Rightarrow> None
      | Some s \<Rightarrow> symbols s name)"
  using define_sym_fails_iff [where tab = tab and name = name and info = info]
    VarDeclaration_redeclared_iff [where a = a and t = t and name = name and init = init]
    define_sym_shadows [where tab = tab and name = name and info = info]
    VarDeclaration_shadows [where a = a and t = t and name = name and init = init]
    lookup_scope_chain [where tab = tab and name = name]
  by blast

theorem redeclaration_checks_current_scope_only_witness:
  "lookup (new_table (Some (SymbolTable [''x'' \<mapsto> VariableSymbol ''int'' True] None 0))) ''x''
     = Some (VariableSymbol ''int'' True) \<and>
   ''x'' \<notin> dom (symbols (new_table (Some (SymbolTable [''x'' \<mapsto> VariableSymbol ''int'' True] None 0)))) \<and>
   (\<exists>a'. analyze_stmt
           \<lparr>current_scope = new_table (Some (SymbolTable [''x'' \<mapsto> VariableSymbol ''int'' True] None 0)),
            current_function = None\<rparr>
           (VarDeclaration ''float'' ''x'' None) = Inr a' \<and>
         lookup (current_scope a') ''x'' = Some (VariableSymbol ''float'' False) \<and>
         parent (current_scope a') = Some (SymbolTable [''x'' \<mapsto> VariableSymbol ''int'' True] None 0)) \<and>
   ''x'' \<in> dom (symbols (SymbolTable [''x'' \<mapsto> VariableSymbol ''int'' True] None 0)) \<and>
   analyze_stmt \<lparr>current_scope = SymbolTable [''x'' \<mapsto> VariableSymbol ''int'' True] None 0,
                 current_function = None\<rparr> (VarDeclaration ''float'' ''x'' None)
     = Inl (VariableAlreadyDeclared ''x'')"
  using redeclaration_checks_current_scope_only
    [where tab = "new_table (Some (SymbolTable [''x'' \<mapsto> VariableSymbol ''int'' True] None 0))"
       and name = "''x''" and info = "VariableSymbol ''float'' False"
       and a = "\<lparr>current_scope =
                   new_table (Some (SymbolTable [''x'' \<mapsto> VariableSymbol ''int'' True] None 0)),
                 current_function = None\<rparr>"
       and t = "''float''" and init = None]
  by (simp add: new_table_def)


section \<open>Properties of the lexer\<close>

lemma read_string_unterminated_example:
  "read_string (init_lexer [CHR 0x22, CHR ''a'', CHR ''b'', CHR ''c''])
     = Inl (SyntaxError 1 5 ''Unterminated string literal'')"
  by (simp add: read_string_def init_lexer_def advance_def peek_def Let_def lexer_error_def)

text \<open>
  Claim C9 fails on the code.  On an input of five characters (an opening double quote,
  the letters a, b, c, and a backslash at the end of the input) the string is not
  terminated, yet
  \<open>read_string\<close> does not raise the lexical error: after the backslash it appends the
  result of \<open>peek\<close>, which is \<open>None\<close>, to \<open>string_value\<close> and Python raises \<open>TypeError\<close>.
\<close>

theorem read_string_backslash_at_end_of_input:
  "read_string (init_lexer [CHR 0x22, CHR ''a'', CHR ''b'', CHR ''c'', CHR 0x5C]) = Inl TypeError"
  by (simp add: read_string_def init_lexer_def advance_def peek_def Let_def)


section \<open>Properties of dead-code elimination\<close>









lemma operand_names_direct:
  "v = VStr s \<Longrightarrow> s \<noteq> [] \<Longrightarrow> \<not> is_constant v \<Longrightarrow> s \<in> operand_names v"
  by simp







text \<open>
  Where an operand is a pair the code and the amended wording part: the first loop looks
  only at operands that are strings, so the name \<open>t1\<close> inside the pair of this
  \<open>builtin_substr\<close> is not marked and the instruction that assigns \<open>t1\<close> is dropped.
\<close>

lemma dead_code_elimination_drops_pair_operand:
  "dead_code_elimination
     [ThreeAddressCode ''+'' (VStr ''i'') (VStr ''1'') (Some ''t1''),
      ThreeAddressCode ''builtin_substr'' (VStr ''s'') (VTuple (VStr ''t1'') (VStr ''4''))
        (Some ''t2''),
      ThreeAddressCode ''print'' (VStr ''t2'') VNone None :: unit instr]
   = [ThreeAddressCode ''builtin_substr'' (VStr ''s'') (VTuple (VStr ''t1'') (VStr ''4''))
        (Some ''t2''),
      ThreeAddressCode ''print'' (VStr ''t2'') VNone None]"
  by (simp add: dead_code_elimination_def ThreeAddressCode_def mark_used_def Let_def startswith_def
      quoted_def)





section \<open>Properties of constant folding\<close>

lemma fold_step_binary:
  assumes "op instr = ''/'' \<or> op instr = ''%''"
  shows "fold_step H instr constants =
     (if operand_value H constants (arg1 instr) \<noteq> VNone \<and>
         operand_value H constants (arg2 instr) \<noteq> VNone
      then (case evaluate_operation H (op instr) (operand_value H constants (arg1 instr))
                   (operand_value H constants (arg2 instr)) of
              Inr result_val \<Rightarrow>
                Inr (constants(result instr \<mapsto> result_val),
                     ThreeAddressCode ''assign'' result_val VNone (result instr))
            | Inl e \<Rightarrow> Inr (constants, instr))
      else Inr (constants(result instr := None), instr))"
  using assms by (elim disjE) (simp_all add: fold_step_def Let_def)

lemma evaluate_division_by_zero:
  assumes "oper = ''/'' \<or> oper = ''%''" "py_eq H r (VInt 0)"
    "oper = ''%'' \<longrightarrow> (\<forall>s. l \<noteq> VStr s)"
  shows "\<exists>e. evaluate_operation H oper l r = Inl e"
proof (cases "int_like l \<noteq> None \<and> int_like r \<noteq> None")
  case True
  then obtain a b where ab: "int_like l = Some a" "int_like r = Some b" by auto
  with assms(2) have "b = 0" by (simp add: py_eq_def)
  with ab assms(1) show ?thesis
    by (elim disjE) (simp_all add: evaluate_operation_def py_floordiv_def py_mod_def)
next
  case False
  from assms(1) show ?thesis
  proof
    assume "oper = ''/''"
    with False assms(2) show ?thesis
      by (auto simp add: evaluate_operation_def py_truediv_def float_arith_def
          split: option.splits sum.splits)
  next
    assume m: "oper = ''%''"
    with assms(3) have "\<forall>s. l \<noteq> VStr s" by simp
    with m False assms(2) show ?thesis
      by (cases l) (auto simp add: evaluate_operation_def py_mod_def float_arith_def
          split: option.splits sum.splits)
  qed
qed

lemma fold_step_zero:
  assumes "op instr = ''/'' \<or> op instr = ''%''"
    "py_eq H (operand_value H constants (arg2 instr)) (VInt 0)"
    "op instr = ''%'' \<longrightarrow> (\<forall>s. operand_value H constants (arg1 instr) \<noteq> VStr s)"
  shows "fold_step H instr constants =
           Inr (if operand_value H constants (arg1 instr) = VNone
                then constants(result instr := None) else constants, instr)"
proof -
  obtain e where "evaluate_operation H (op instr) (operand_value H constants (arg1 instr))
      (operand_value H constants (arg2 instr)) = Inl e"
    using evaluate_division_by_zero [OF assms] by blast
  moreover have "operand_value H constants (arg2 instr) \<noteq> VNone"
    using assms(2) by (auto simp add: py_eq_def)
  ultimately show ?thesis
    by (simp add: fold_step_binary [OF assms(1)])
qed

lemma get_value_error:
  "get_value H vars a = Inl e \<Longrightarrow> \<exists>m. e = RuntimeError m"
  by (auto simp add: get_value_def split: val.splits if_splits option.splits)

lemma execute_arithmetic:
  assumes "op instr = ''/'' \<or> op instr = ''%''"
  shows "execute_instruction H code st instr =
     (case get_value H (variables st) (arg1 instr) of
        Inl e \<Rightarrow> Inl e
      | Inr left \<Rightarrow>
          (case get_value H (variables st) (arg2 instr) of
             Inl e \<Rightarrow> Inl e
           | Inr right \<Rightarrow>
               (case arithmetic H (heap st) (op instr) left right of
                  Inl e \<Rightarrow> Inl e
                | Inr (v, hp) \<Rightarrow> Inr (set_var (st\<lparr>heap := hp\<rparr>) (result instr) v))))"
  using assms
  by (elim disjE) (simp_all add: execute_instruction_def exec_binary_def split: sum.splits)

lemma arithmetic_zero:
  assumes "oper = ''/'' \<or> oper = ''%''" "py_eq H r (VInt 0)"
  shows "arithmetic H hp oper l r =
           Inl (RuntimeError (if oper = ''/'' then ''Division by zero'' else ''Modulo by zero''))"
  using assms by (elim disjE) (simp_all add: arithmetic_def)

lemma exec_div_zero:
  assumes "op instr = ''/'' \<or> op instr = ''%''"
    "get_value H (variables st) (arg2 instr) = Inr r" "py_eq H r (VInt 0)"
  shows "(\<exists>msg. execute_instruction H code st instr = Inl (RuntimeError msg)) \<and>
         (\<forall>l. get_value H (variables st) (arg1 instr) = Inr l \<longrightarrow>
            execute_instruction H code st instr =
              Inl (RuntimeError (if op instr = ''/'' then ''Division by zero''
                                 else ''Modulo by zero'')))"
proof (cases "get_value H (variables st) (arg1 instr)")
  case (Inl e)
  then obtain m where "e = RuntimeError m" using get_value_error by blast
  with Inl show ?thesis by (simp add: execute_arithmetic [OF assms(1)])
next
  case (Inr l)
  then show ?thesis
    by (simp add: execute_arithmetic [OF assms(1)] assms(2) arithmetic_zero [OF assms(1) assms(3)])
qed

text \<open>
  What the two passes do with a zero divisor when the left operand is not a string.
  For a \<open>/\<close> or \<open>%\<close> instruction whose right operand is a constant equal to zero (the
  value of a literal or of a name in \<open>constants\<close> with \<open>value == 0\<close>), and whose left
  operand, if the operation is \<open>%\<close>, is not a string, the loop of constant folding
  appends the instruction itself.  When the interpreter executes a \<open>/\<close> or \<open>%\<close>
  instruction whose right operand resolves to a value equal to zero it raises
  \<open>RuntimeError\<close>: "Division by zero" or "Modulo by zero" when the left operand
  resolves, the error of resolving the left operand otherwise.
\<close>

lemma zero_divisor_kept:
  "((op instr = ''/'' \<or> op instr = ''%'') \<and>
    py_eq H (operand_value H constants (arg2 instr)) (VInt 0) \<and>
    (op instr = ''%'' \<longrightarrow> (\<forall>s. operand_value H constants (arg1 instr) \<noteq> VStr s)) \<longrightarrow>
      fold_step H instr constants =
        Inr (if operand_value H constants (arg1 instr) = VNone
             then constants(result instr := None) else constants, instr) \<and>
      fold_loop H (instr # code) constants optimized =
        fold_loop H code
          (if operand_value H constants (arg1 instr) = VNone
           then constants(result instr := None) else constants) (optimized @ [instr])) \<and>
   ((op instr = ''/'' \<or> op instr = ''%'') \<and>
    get_value H (variables st) (arg2 instr) = Inr r \<and> py_eq H r (VInt 0) \<longrightarrow>
      (\<exists>msg. execute_instruction H prog st instr = Inl (RuntimeError msg)) \<and>
      (\<forall>l. get_value H (variables st) (arg1 instr) = Inr l \<longrightarrow>
         execute_instruction H prog st instr =
           Inl (RuntimeError (if op instr = ''/'' then ''Division by zero''
                              else ''Modulo by zero''))))"
  using fold_step_zero [of instr H constants] exec_div_zero [of instr H st r prog]
  by auto

lemma zero_divisor_kept_example:
  "fold_step zero_float_host (ThreeAddressCode ''/'' (VStr ''7'') (VStr ''0'') (Some ''t0''))
     Map.empty
     = Inr (Map.empty, ThreeAddressCode ''/'' (VStr ''7'') (VStr ''0'') (Some ''t0'')) \<and>
   constant_folding zero_float_host
     [ThreeAddressCode ''/'' (VStr ''7'') (VStr ''0'') (Some ''t0'')]
     = Inr [ThreeAddressCode ''/'' (VStr ''7'') (VStr ''0'') (Some ''t0'')] \<and>
   execute_instruction zero_float_host [] (init_vm [] [] [])
     (ThreeAddressCode ''/'' (VStr ''7'') (VStr ''0'') (Some ''t0''))
     = Inl (RuntimeError ''Division by zero'')"
proof -
  have v7: "get_value zero_float_host Map.empty (VStr ''7'') = Inr (VInt 7)"
    by (simp add: get_value_def quoted_def startswith_def py_int_def strip_def is_space_def
        unsigned_def is_sign_def digitpart_def is_digit_def nat_of_digits_def)
  have v0: "get_value zero_float_host Map.empty (VStr ''0'') = Inr (VInt 0)"
    by (simp add: get_value_def quoted_def startswith_def py_int_def strip_def is_space_def
        unsigned_def is_sign_def digitpart_def is_digit_def nat_of_digits_def)
  have o0: "operand_value zero_float_host Map.empty (VStr ''0'') = VInt 0"
    by code_simp
  have o7: "operand_value zero_float_host Map.empty (VStr ''7'') = VInt 7"
    by code_simp
  have z: "py_eq zero_float_host (VInt 0) (VInt 0)"
    by (simp add: py_eq_def)
  show ?thesis
    using zero_divisor_kept
      [where instr = "ThreeAddressCode ''/'' (VStr ''7'') (VStr ''0'') (Some ''t0'')"
         and H = zero_float_host and constants = Map.empty and code = "[]" and optimized = "[]"
         and st = "init_vm [] [] []" and r = "VInt 0" and prog = "[]"]
    by (auto simp add: ThreeAddressCode_def o0 o7 v0 v7 z init_vm_def constant_folding_def)
qed

text \<open>
  With the string constant \<open>"%d"\<close> on the left, \<open>%\<close> is Python's string formatting:
  \<open>'%d' % 0\<close> is the string \<open>'0'\<close>, no exception is raised, and the instruction is
  folded to an assignment, although the right operand is zero.
\<close>

lemma string_format_is_folded:
  "is_constant (VStr [CHR 0x22, CHR 0x25, CHR 0x64, CHR 0x22] :: unit val) \<and>
   operand_value zero_float_host Map.empty (VStr ''0'') = VInt 0 \<and>
   constant_folding zero_float_host
     [ThreeAddressCode ''%'' (VStr [CHR 0x22, CHR 0x25, CHR 0x64, CHR 0x22]) (VStr ''0'')
        (Some ''t0'')]
     = Inr [ThreeAddressCode ''assign'' (VStr ''0'') VNone (Some ''t0'')] \<and>
   ThreeAddressCode ''assign'' (VStr ''0'') VNone (Some ''t0'')
     \<noteq> (ThreeAddressCode ''%'' (VStr [CHR 0x22, CHR 0x25, CHR 0x64, CHR 0x22]) (VStr ''0'')
          (Some ''t0'') :: unit instr)"
proof -
  have o0: "operand_value zero_float_host Map.empty (VStr ''0'') = VInt 0"
    by code_simp
  have q: "quoted [CHR 0x22, CHR 0x25, CHR 0x64, CHR 0x22]"
    by (simp add: quoted_def startswith_def endswith_def)
  have od: "operand_value zero_float_host Map.empty (VStr [CHR 0x22, CHR 0x25, CHR 0x64, CHR 0x22])
      = VStr ''%d''"
    by (simp add: operand_value_def env_get_def q strip_quotes_def)
  have ev: "evaluate_operation zero_float_host ''%'' (VStr ''%d'') (VInt 0) = Inr (VStr ''0'')"
    by (simp add: evaluate_operation_def py_mod_def zero_float_host_def str_int_def)
  show ?thesis
    by (simp add: constant_folding_def fold_step_def ThreeAddressCode_def o0 od ev q Let_def)
qed

text \<open>
  Claim C5 fails on the code.  The operation \<open>-\<close> is in the list of the binary branch,
  which comes first in the \<open>elif\<close> chain, so a unary minus never reaches the unary
  branch: its absent \<open>arg2\<close> is not a constant and the instruction is kept as it is,
  with its result removed from \<open>constants\<close>.  Likewise \<open>is_constant\<close> does not accept
  the literals \<open>true\<close> and \<open>false\<close> that the generator emits, so \<open>not true\<close> is kept.
\<close>

lemma unary_minus_never_folded:
  "op instr = ''-'' \<Longrightarrow> arg2 instr = VNone \<Longrightarrow> constants None = None \<Longrightarrow>
   fold_step H instr constants = Inr (constants(result instr := None), instr)"
  by (simp add: fold_step_def operand_value_def env_get_def Let_def)

lemma not_true_literal_kept:
  assumes "constants (Some ''true'') = None"
  shows "fold_step H (ThreeAddressCode ''not'' (VStr ''true'') VNone (Some ''t0'')) constants
     = Inr (constants, ThreeAddressCode ''not'' (VStr ''true'') VNone (Some ''t0''))"
proof -
  have "\<not> is_constant (VStr ''true'' :: 'a val)" by code_simp
  with assms show ?thesis
    by (simp add: fold_step_def operand_value_def env_get_def Let_def ThreeAddressCode_def)
qed

theorem constant_folding_keeps_unary_minus:
  "constant_folding H [ThreeAddressCode ''-'' (VStr ''5'') VNone (Some ''t0'')]
     = Inr [ThreeAddressCode ''-'' (VStr ''5'') VNone (Some ''t0'')]"
  by (simp add: constant_folding_def fold_step_def ThreeAddressCode_def operand_value_def
      env_get_def Let_def)


section \<open>Properties of the interpreter\<close>

lemma exec_return_value:
  assumes "op instr = ''return''" "call_stack st \<noteq> []"
    "arg1 instr \<noteq> VNone" "get_value H (variables st) (arg1 instr) = Inr ret" "ret \<noteq> VNone"
    "py_index code (int (return_address (last (call_stack st))) - 1) = Inr call_instr"
  shows "execute_instruction H code st instr =
     Inr (st\<lparr>call_stack := butlast (call_stack st),
            variables := (if truthy_name (result call_instr)
                          then (saved_vars (last (call_stack st)))(result call_instr \<mapsto> ret)
                          else saved_vars (last (call_stack st))),
            pc := return_address (last (call_stack st))\<rparr>)"
  using assms
  by (simp add: execute_instruction_def exec_return_def set_var_def Let_def)

lemma exec_return_no_value:
  assumes "op instr = ''return''" "call_stack st \<noteq> []"
    "arg1 instr = VNone \<or> get_value H (variables st) (arg1 instr) = Inr VNone"
  shows "execute_instruction H code st instr =
     Inr (st\<lparr>call_stack := butlast (call_stack st),
            variables := saved_vars (last (call_stack st)),
            pc := return_address (last (call_stack st))\<rparr>)"
  using assms
  by (auto simp add: execute_instruction_def exec_return_def set_var_def Let_def)

lemma exec_call_frame:
  assumes "op instr = ''call''" "execute_instruction H code st instr = Inr st'"
  shows "\<exists>ps entry. call_stack st' = call_stack st @
            [\<lparr>return_address = pc st + 1, saved_vars = variables st, params = ps,
              return_value = VNone, param_index = None\<rparr>] \<and>
          lookup_function H (function_table st) (arg1 instr) = Some entry \<and> pc st' = entry \<and>
          variables st' = variables st"
  using assms
  by (auto simp add: execute_instruction_def exec_call_def split: option.splits sum.splits)

text \<open>
  Claim C3.  A \<open>call\<close> that succeeds pushes a frame whose \<open>saved_vars\<close> is the dict
  \<open>variables\<close> of that moment and whose \<open>return_address\<close> is the index after the
  \<open>call\<close>.  A \<open>return\<close> executed with a non-empty call stack, whose operand (when it has
  one) resolves, pops the top frame, sets \<open>pc\<close> to the frame's \<open>return_address\<close> and
  makes the frame's \<open>saved_vars\<close> the current \<open>variables\<close>; when the returned value is
  not \<open>None\<close> it is written under the \<open>result\<close> name of the instruction at index
  \<open>return_address - 1\<close>, and no other name of the restored dict differs from
  \<open>saved_vars\<close>.  Nothing else of the state changes.
\<close>

theorem return_restores_frame:
  "(op instr = ''return'' \<and> call_stack st \<noteq> [] \<and> arg1 instr \<noteq> VNone \<and>
    get_value H (variables st) (arg1 instr) = Inr ret \<and> ret \<noteq> VNone \<and>
    py_index code (int (return_address (last (call_stack st))) - 1) = Inr call_instr \<longrightarrow>
      execute_instruction H code st instr =
        Inr (st\<lparr>call_stack := butlast (call_stack st),
               variables := (if truthy_name (result call_instr)
                             then (saved_vars (last (call_stack st)))(result call_instr \<mapsto> ret)
                             else saved_vars (last (call_stack st))),
               pc := return_address (last (call_stack st))\<rparr>) \<and>
      (\<forall>n. n \<noteq> result call_instr \<longrightarrow>
         (if truthy_name (result call_instr)
          then (saved_vars (last (call_stack st)))(result call_instr \<mapsto> ret)
          else saved_vars (last (call_stack st))) n = saved_vars (last (call_stack st)) n)) \<and>
   (op instr = ''return'' \<and> call_stack st \<noteq> [] \<and>
    (arg1 instr = VNone \<or> get_value H (variables st) (arg1 instr) = Inr VNone) \<longrightarrow>
      execute_instruction H code st instr =
        Inr (st\<lparr>call_stack := butlast (call_stack st),
               variables := saved_vars (last (call_stack st)),
               pc := return_address (last (call_stack st))\<rparr>)) \<and>
   (op cinstr = ''call'' \<and> execute_instruction H code st0 cinstr = Inr st1 \<longrightarrow>
      (\<exists>ps entry. call_stack st1 = call_stack st0 @
            [\<lparr>return_address = pc st0 + 1, saved_vars = variables st0, params = ps,
              return_value = VNone, param_index = None\<rparr>] \<and>
          lookup_function H (function_table st0) (arg1 cinstr) = Some entry \<and> pc st1 = entry \<and>
          variables st1 = variables st0))"
  using exec_return_value [of instr st H ret code call_instr]
    exec_return_no_value [of instr st H code]
    exec_call_frame [of cinstr H code st0 st1]
  by auto

theorem return_restores_frame_witness:
  "execute_instruction zero_float_host
     [ThreeAddressCode ''call'' (VStr ''f'') (VInt 0) (Some ''t0''),
      ThreeAddressCode ''return'' (VStr ''5'') VNone None]
     ((init_vm [] [] [])
        \<lparr>variables := [Some ''x'' \<mapsto> VInt 2, Some ''y'' \<mapsto> VInt 3],
          call_stack := [\<lparr>return_address = 1, saved_vars = [Some ''x'' \<mapsto> VInt 1],
                           params = [], return_value = VNone, param_index = None\<rparr>],
          pc := 1\<rparr>)
     (ThreeAddressCode ''return'' (VStr ''5'') VNone None)
   = Inr ((init_vm [] [] [])
        \<lparr>variables := [Some ''x'' \<mapsto> VInt 1, Some ''t0'' \<mapsto> VInt 5],
          call_stack := [], pc := 1\<rparr>)"
proof -
  have v5: "get_value zero_float_host vars (VStr ''5'') = Inr (VInt 5)" for vars
    by (simp add: get_value_def quoted_def startswith_def py_int_def strip_def is_space_def
        unsigned_def is_sign_def digitpart_def is_digit_def nat_of_digits_def)
  show ?thesis
    using return_restores_frame
      [where instr = "ThreeAddressCode ''return'' (VStr ''5'') VNone None"
         and H = zero_float_host and ret = "VInt 5"
         and code = "[ThreeAddressCode ''call'' (VStr ''f'') (VInt 0) (Some ''t0''),
                      ThreeAddressCode ''return'' (VStr ''5'') VNone None]"
         and call_instr = "ThreeAddressCode ''call'' (VStr ''f'') (VInt 0) (Some ''t0'')"
         and st = "(init_vm [] [] [])
            \<lparr>variables := [Some ''x'' \<mapsto> VInt 2, Some ''y'' \<mapsto> VInt 3],
              call_stack := [\<lparr>return_address = 1, saved_vars = [Some ''x'' \<mapsto> VInt 1],
                               params = [], return_value = VNone, param_index = None\<rparr>],
              pc := 1\<rparr>"]
    by (simp add: ThreeAddressCode_def v5 init_vm_def py_index_def)
qed

section \<open>Properties of arrays\<close>

lemma list_update_snoc: "(xs @ [x])[length xs := y] = xs @ [y]"
  by (simp add: list_update_append)

text \<open>
  Claim C10.  An \<open>array_append\<close> whose result name is not bound in \<open>variables\<close> and whose
  operand resolves to a value \<open>v\<close> raises nothing: it allocates a new list, appends \<open>v\<close>
  and binds the result name to the list.  When the operand does not resolve, the
  error is the operand's.
\<close>

theorem array_append_unbound_creates_array:
  "op instr = ''array_append'' \<and> variables st (result instr) = None \<longrightarrow>
   (get_value H (variables st) (arg1 instr) = Inr v \<longrightarrow>
      execute_instruction H code st instr =
        Inr (st\<lparr>heap := heap st @ [[v]],
               variables := (variables st)(result instr \<mapsto> VList (length (heap st)))\<rparr>)) \<and>
   (get_value H (variables st) (arg1 instr) = Inl e \<longrightarrow>
      execute_instruction H code st instr = Inl e)"
  by (simp add: execute_instruction_def exec_array_append_def set_var_def heap_get_def
      list_update_snoc Let_def)

theorem array_append_unbound_creates_array_witness:
  "variables (init_vm [] [] [] :: unit vm) (Some ''a'') = None \<and>
   execute_instruction zero_float_host [] (init_vm [] [] [])
     (ThreeAddressCode ''array_append'' (VStr ''7'') VNone (Some ''a''))
   = Inr ((init_vm [] [] [])\<lparr>heap := [[VInt 7]], variables := [Some ''a'' \<mapsto> VList 0]\<rparr>)"
proof -
  have v7: "get_value zero_float_host vars (VStr ''7'') = Inr (VInt 7)" for vars
    by (simp add: get_value_def quoted_def startswith_def py_int_def strip_def is_space_def
        unsigned_def is_sign_def digitpart_def is_digit_def nat_of_digits_def)
  show ?thesis
    using array_append_unbound_creates_array
      [where instr = "ThreeAddressCode ''array_append'' (VStr ''7'') VNone (Some ''a'')"
         and st = "init_vm [] [] []" and H = zero_float_host and v = "VInt 7" and code = "[]"]
    by (simp add: ThreeAddressCode_def v7 init_vm_def)
qed


section \<open>Runs of whole programs\<close>

lemma execute_loop_done:
  "\<not> pc st < length code \<Longrightarrow> execute_loop H code n st = Some (Inr st)"
  by (cases n) simp_all

lemma run_error:
  "map_option (map_sum id f) r = Some (Inl e) \<Longrightarrow> r = Some (Inl e)"
  by (cases r) (auto simp add: map_sum_def split: sum.splits)

lemma run_output:
  "map_option (map_sum id f) r = Some (Inr out) \<Longrightarrow> \<exists>st. r = Some (Inr st) \<and> f st = out"
  by (cases r) (auto simp add: map_sum_def split: sum.splits)

lemma digit_strings:
  "str_int 1 = ''1''" "str_int 2 = ''2''" "str_int 3 = ''3''" "str_int 4 = ''4''"
  "str_int 14 = ''14''" "str_nat 0 = ''0''" "str_nat 1 = ''1''" "str_nat 2 = ''2''"
  by code_simp+

lemma operand_syntax:
  "py_int ''2'' = Some 2" "py_int ''3'' = Some 3" "py_int ''4'' = Some 4" "py_int ''x'' = None"
  "float_syntax ''2''" "float_syntax ''3''" "float_syntax ''4''"
  "\<not> float_syntax ''t0''" "\<not> float_syntax ''t1''" "\<not> float_syntax ''x''"
  "\<not> quoted ''2''" "\<not> quoted ''3''" "\<not> quoted ''4''"
  "\<not> quoted ''t0''" "\<not> quoted ''t1''" "\<not> quoted ''x''"
  by code_simp+

lemma sum_program_ir:
  "map_sum id ir_code (generate_Program H sum_program init_irgen) =
     Inr [ThreeAddressCode ''*'' (VStr ''3'') (VStr ''4'') (Some ''t0''),
          ThreeAddressCode ''+'' (VStr ''2'') (VStr ''t0'') (Some ''t1''),
          ThreeAddressCode ''assign'' (VStr ''t1'') VNone (Some ''x''),
          ThreeAddressCode ''print'' (VStr ''x'') VNone None]"
  by (simp add: sum_program_def init_irgen_def new_temp_def emit_def digit_strings)

lemma sum_program_folded:
  "constant_folding H
     [ThreeAddressCode ''*'' (VStr ''3'') (VStr ''4'') (Some ''t0''),
      ThreeAddressCode ''+'' (VStr ''2'') (VStr ''t0'') (Some ''t1''),
      ThreeAddressCode ''assign'' (VStr ''t1'') VNone (Some ''x''),
      ThreeAddressCode ''print'' (VStr ''x'') VNone None] =
   Inr [ThreeAddressCode ''assign'' (VInt 12) VNone (Some ''t0''),
        ThreeAddressCode ''assign'' (VInt 14) VNone (Some ''t1''),
        ThreeAddressCode ''assign'' (VInt 14) VNone (Some ''x''),
        ThreeAddressCode ''print'' (VStr ''x'') VNone None]"
  by (simp add: constant_folding_def fold_step_def ThreeAddressCode_def operand_value_def
      env_get_def operand_syntax evaluate_operation_def py_mul_def py_add_def Let_def)

lemma sum_program_propagated:
  "copy_propagation
     [ThreeAddressCode ''assign'' (VInt 12) VNone (Some ''t0''),
      ThreeAddressCode ''assign'' (VInt 14) VNone (Some ''t1''),
      ThreeAddressCode ''assign'' (VInt 14) VNone (Some ''x''),
      ThreeAddressCode ''print'' (VStr ''x'') VNone None] =
     [ThreeAddressCode ''assign'' (VInt 12) VNone (Some ''t0''),
      ThreeAddressCode ''assign'' (VInt 14) VNone (Some ''t1''),
      ThreeAddressCode ''assign'' (VInt 14) VNone (Some ''x''),
      ThreeAddressCode ''print'' (VStr ''x'') VNone None :: 'f instr]"
  by (simp add: copy_propagation_def propagate_step_def ThreeAddressCode_def copy_of_str_def
      copy_of_def env_get_def)

lemma sum_program_eliminated:
  "dead_code_elimination
     [ThreeAddressCode ''assign'' (VInt 12) VNone (Some ''t0''),
      ThreeAddressCode ''assign'' (VInt 14) VNone (Some ''t1''),
      ThreeAddressCode ''assign'' (VInt 14) VNone (Some ''x''),
      ThreeAddressCode ''print'' (VStr ''x'') VNone None] = (sum_optimized :: 'f instr list)"
  by (simp add: dead_code_elimination_def mark_used_def ThreeAddressCode_def Let_def
      operand_syntax startswith_def sum_optimized_def)

lemma sum_program_compiled: "compile_ir H sum_program = Inr sum_optimized"
proof -
  obtain g where g: "generate_Program H sum_program init_irgen = Inr g"
    and c: "ir_code g = [ThreeAddressCode ''*'' (VStr ''3'') (VStr ''4'') (Some ''t0''),
          ThreeAddressCode ''+'' (VStr ''2'') (VStr ''t0'') (Some ''t1''),
          ThreeAddressCode ''assign'' (VStr ''t1'') VNone (Some ''x''),
          ThreeAddressCode ''print'' (VStr ''x'') VNone None]"
    using sum_program_ir [of H]
    by (cases "generate_Program H sum_program init_irgen") (auto simp add: map_sum_def)
  show ?thesis
    by (simp add: compile_ir_def g c optimize_def sum_program_folded sum_program_propagated
        sum_program_eliminated)
qed

lemma sum_program_run:
  "\<exists>st. execute H sum_optimized [] [] (Suc (Suc n)) = Some (Inr st) \<and>
        captured_output st = [''14'']"
  by (simp add: execute_def init_vm_def ThreeAddressCode_def execute_instruction_def
      exec_assign_def exec_print_def get_value_def set_var_def operand_syntax digit_strings
      execute_loop_done sum_optimized_def)

text \<open>
  Claim C1.  For the program \<open>int x = 2 + 3 * 4; print(x);\<close> and every host, the
  generator emits \<open>t0 = 3 * 4\<close>, \<open>t1 = 2 + t0\<close>, \<open>x = t1\<close>, \<open>print x\<close>; generator and
  optimizer together yield the two instructions \<open>assign x = 14\<close> and \<open>print x\<close>, of which
  the first is the only one whose result is \<open>x\<close>; and interpreting that code, with any
  fuel of two steps or more, ends with the captured output \<open>["14"]\<close>.
\<close>

theorem sum_program_single_assign:
  "map_sum id ir_code (generate_Program H sum_program init_irgen) =
     Inr [ThreeAddressCode ''*'' (VStr ''3'') (VStr ''4'') (Some ''t0''),
          ThreeAddressCode ''+'' (VStr ''2'') (VStr ''t0'') (Some ''t1''),
          ThreeAddressCode ''assign'' (VStr ''t1'') VNone (Some ''x''),
          ThreeAddressCode ''print'' (VStr ''x'') VNone None] \<and>
   compile_ir H sum_program = Inr sum_optimized \<and>
   sum_optimized =
     [ThreeAddressCode ''assign'' (VInt 14) VNone (Some ''x''),
      ThreeAddressCode ''print'' (VStr ''x'') VNone None] \<and>
   filter (\<lambda>instr. result instr = Some ''x'') sum_optimized =
     [ThreeAddressCode ''assign'' (VInt 14) VNone (Some ''x'')] \<and>
   (\<exists>st. execute H sum_optimized [] [] (Suc (Suc n)) = Some (Inr st) \<and>
         captured_output st = [''14''])"
  using sum_program_ir [of H] sum_program_compiled [of H] sum_program_run [of H n]
  by (simp add: sum_optimized_def ThreeAddressCode_def)

lemma nested_call_checked:
  "\<not> isl (analyze_Program init_analyzer nested_call_program)"
  by code_simp

lemma nested_call_generated:
  "map_sum id ir_code (generate_Program H nested_call_program init_irgen) = Inr nested_call_ir"
  by (simp add: nested_call_program_def nested_call_ir_def init_irgen_def new_temp_def emit_def
      digit_strings)

lemma nested_call_frame:
  "map_sum id (\<lambda>st. (map params (call_stack st), pc st))
     (exec_call zero_float_host nested_call_ir
        ((init_vm nested_call_ir [] [])\<lparr>pc := 14, variables := [Some ''t1'' \<mapsto> VInt 2]\<rparr>)
        (nested_call_ir ! 14)) = Inr ([[VInt 2]], 5)"
  by code_simp

lemma nested_call_run:
  "map_option (map_sum id captured_output) (execute zero_float_host nested_call_ir [] [] 20)
    = Some (Inl (RuntimeError ''Undefined variable: b''))"
  by code_simp

text \<open>
  Claim C2 fails on the code.  For \<open>print(f(1, g(2)));\<close> the generator emits
  \<open>param 1\<close>, \<open>param 2\<close>, \<open>call g, 1\<close>, \<open>param t1\<close>, \<open>call f, 2\<close>: the code of an argument
  comes between the \<open>param\<close> instructions of the call.  The \<open>call f, 2\<close> at index 14
  reads the two instructions before it, \<open>call g, 1\<close> and \<open>param t1\<close>, and keeps the one
  that is a \<open>param\<close>: the frame it pushes has the single parameter value 2, not the two
  argument values 1 and 2.  The run of the program, which the analyzer accepts, ends
  with the error that \<open>b\<close> is undefined.
\<close>

theorem call_reads_instructions_before_it:
  "\<not> isl (analyze_Program init_analyzer (nested_call_program :: unit program)) \<and>
   map_sum id ir_code (generate_Program H nested_call_program init_irgen) = Inr nested_call_ir \<and>
   map_sum id (\<lambda>st. (map params (call_stack st), pc st))
     (exec_call zero_float_host nested_call_ir
        ((init_vm nested_call_ir [] [])\<lparr>pc := 14, variables := [Some ''t1'' \<mapsto> VInt 2]\<rparr>)
        (nested_call_ir ! 14)) = Inr ([[VInt 2]], 5) \<and>
   execute zero_float_host nested_call_ir [] [] 20 =
     Some (Inl (RuntimeError ''Undefined variable: b''))"
  using nested_call_checked nested_call_generated [of H] nested_call_frame
    run_error [OF nested_call_run]
  by (simp only: simp_thms)


section \<open>Constant folding of a modulo by zero\<close>

lemma modulo_program_checked:
  "\<not> isl (analyze_Program init_analyzer (modulo_program :: unit program))"
  by code_simp

lemma modulo_program_generated:
  "map_sum id ir_code (generate_Program zero_float_host modulo_program init_irgen) =
     Inr modulo_ir"
  by code_simp

lemma modulo_program_folded:
  "constant_folding zero_float_host modulo_ir =
     Inr (modulo_ir [5 := ThreeAddressCode ''assign'' (VStr ''0'') VNone (Some ''t0''),
                     6 := ThreeAddressCode ''assign'' (VStr ''0'') VNone (Some ''y'')])"
  by code_simp

lemma modulo_program_compiled:
  "compile_ir zero_float_host modulo_program = Inr modulo_optimized"
  by code_simp

lemma modulo_program_run:
  "map_option (map_sum id captured_output) (execute zero_float_host modulo_ir [] [] 8) =
     Some (Inl (RuntimeError ''Modulo by zero''))"
  by code_simp

lemma modulo_optimized_run:
  "map_option (map_sum id captured_output) (execute zero_float_host modulo_optimized [] [] 8) =
     Some (Inr [''0''])"
  by code_simp

text \<open>
  Claim C4 fails on the code.  The program
  \<open>int x = 5; function int f() { string x = "%d"; return 1; } int y = x % 0; print(y);\<close>
  passes the analyzer.  Its instruction 5 is \<open>t0 = x % 0\<close>.  The dict \<open>constants\<close> is not
  cleared at \<open>begin_func\<close>, so when the folding pass reaches that instruction \<open>x\<close> is bound
  to the string \<open>%d\<close> of the function body, both operands are constants, the right one
  is zero, and \<open>'%d' % 0\<close> is string formatting: the pass replaces the instruction by
  \<open>assign t0 = '0'\<close> instead of keeping it (and then \<open>y = t0\<close> by \<open>assign y = '0'\<close>).  The interpreter raises "Modulo by zero" on
  the code as generated, and prints 0 on the optimized code.
\<close>

theorem constant_folding_folds_modulo_by_zero:
  "\<not> isl (analyze_Program init_analyzer (modulo_program :: unit program)) \<and>
   map_sum id ir_code (generate_Program zero_float_host modulo_program init_irgen) =
     Inr modulo_ir \<and>
   modulo_ir ! 5 = (ThreeAddressCode ''%'' (VStr ''x'') (VStr ''0'') (Some ''t0'') :: unit instr) \<and>
   constant_folding zero_float_host modulo_ir =
     Inr (modulo_ir [5 := ThreeAddressCode ''assign'' (VStr ''0'') VNone (Some ''t0''),
                     6 := ThreeAddressCode ''assign'' (VStr ''0'') VNone (Some ''y'')]) \<and>
   execute zero_float_host modulo_ir [] [] 8 = Some (Inl (RuntimeError ''Modulo by zero'')) \<and>
   compile_ir zero_float_host modulo_program = Inr modulo_optimized \<and>
   (\<exists>st. execute zero_float_host modulo_optimized [] [] 8 = Some (Inr st) \<and>
         captured_output st = [''0''])"
proof (intro conjI)
  show "modulo_ir ! 5 = (ThreeAddressCode ''%'' (VStr ''x'') (VStr ''0'') (Some ''t0'') :: unit instr)"
    by (simp add: modulo_ir_def)
qed (simp_all only: modulo_program_checked modulo_program_generated modulo_program_folded
    modulo_program_compiled run_error [OF modulo_program_run]
    run_output [OF modulo_optimized_run] not_False_eq_True)


end
